theory Spec2Isabelle
  imports Complex_Main "HOL-Library.Word"
begin

section \<open>The C ABI adapter of the xLearn WASM port (csrc/wl_api.cpp)\<close>

text \<open>
  The adapter is a set of C functions around the engine's own C API. They share three
  static variables (\<open>last_error\<close>, \<open>saved_stdout_fd\<close>, \<open>fit_counter\<close>) and act on the
  process: its descriptor table, the MEMFS files, the heap. The model threads one record
  of that state through every function. The engine is not part of the adapter: its entry
  points are taken as a parameter, a record of state transformers over an engine state of
  any type.
\<close>

subsection \<open>Floating point\<close>

text \<open>
  The adapter computes with C \<open>float\<close>: \<open>val == 0.0f\<close>, \<open>val * val\<close>, \<open>norm += ...\<close>,
  \<open>norm > 0.0f\<close> and \<open>1.0f / norm\<close>. The arithmetic is the platform's, so it is a
  parameter of the model: every theorem below holds for any choice of these operations,
  the IEEE-754 single precision ones included.
\<close>

record 'f float_ops =
  fzero :: 'f
  fone :: 'f
  fadd :: "'f \<Rightarrow> 'f \<Rightarrow> 'f"
  fmul :: "'f \<Rightarrow> 'f \<Rightarrow> 'f"
  fdiv :: "'f \<Rightarrow> 'f \<Rightarrow> 'f"
  feq :: "'f \<Rightarrow> 'f \<Rightarrow> bool"
  fgt :: "'f \<Rightarrow> 'f \<Rightarrow> bool"

text \<open>
  One concrete arithmetic, used to run the model on inputs: the special values of
  IEEE-754 (the infinities and NaN, with their rules for \<open>+\<close>, \<open>*\<close>, \<open>/\<close>, \<open>==\<close> and
  \<open>>\<close>) over exact rationals. Rounding and the sign of zero are not modelled.
\<close>

datatype fval = Fin rat | PInf | NInf | NaN

fun fv_add :: "fval \<Rightarrow> fval \<Rightarrow> fval" where
  "fv_add NaN _ = NaN"
| "fv_add _ NaN = NaN"
| "fv_add PInf NInf = NaN"
| "fv_add NInf PInf = NaN"
| "fv_add PInf _ = PInf"
| "fv_add _ PInf = PInf"
| "fv_add NInf _ = NInf"
| "fv_add _ NInf = NInf"
| "fv_add (Fin a) (Fin b) = Fin (a + b)"

fun fv_sign :: "fval \<Rightarrow> int" where
  "fv_sign (Fin a) = (if a < 0 then -1 else if a = 0 then 0 else 1)"
| "fv_sign PInf = 1"
| "fv_sign NInf = -1"
| "fv_sign NaN = 0"

definition fv_inf :: "int \<Rightarrow> fval" where
  "fv_inf s = (if s < 0 then NInf else if s = 0 then NaN else PInf)"

fun fv_mul :: "fval \<Rightarrow> fval \<Rightarrow> fval" where
  "fv_mul NaN _ = NaN"
| "fv_mul _ NaN = NaN"
| "fv_mul (Fin a) (Fin b) = Fin (a * b)"
| "fv_mul x y = fv_inf (fv_sign x * fv_sign y)"

fun fv_div :: "fval \<Rightarrow> fval \<Rightarrow> fval" where
  "fv_div NaN _ = NaN"
| "fv_div _ NaN = NaN"
| "fv_div (Fin a) (Fin b) = (if b = 0 then fv_inf (fv_sign (Fin a)) else Fin (a / b))"
| "fv_div (Fin a) _ = Fin 0"
| "fv_div x (Fin b) = fv_inf (fv_sign x * (if b < 0 then -1 else 1))"
| "fv_div _ _ = NaN"

fun fv_eq :: "fval \<Rightarrow> fval \<Rightarrow> bool" where
  "fv_eq NaN _ = False"
| "fv_eq _ NaN = False"
| "fv_eq x y = (x = y)"

fun fv_gt :: "fval \<Rightarrow> fval \<Rightarrow> bool" where
  "fv_gt NaN _ = False"
| "fv_gt _ NaN = False"
| "fv_gt (Fin a) (Fin b) = (a > b)"
| "fv_gt PInf y = (y \<noteq> PInf)"
| "fv_gt x NInf = (x \<noteq> NInf)"
| "fv_gt _ _ = False"

definition fv_ops :: "fval float_ops" where
  "fv_ops = \<lparr> fzero = Fin 0, fone = Fin 1, fadd = fv_add, fmul = fv_mul, fdiv = fv_div,
               feq = fv_eq, fgt = fv_gt \<rparr>"

subsection \<open>The engine's training matrix\<close>

text \<open>
  Modelled from the spec: \<open>xLearn::DMatrix\<close> and \<open>xLearn::index_t\<close> are declared in
  the engine's \<open>src/data/data_structure.h\<close>, which is not among the adapter's sources.
  Per row the matrix holds a sequence of nodes (field index, column index, value), a
  label and a normalization scalar; \<open>has_label\<close> says whether a label array was
  supplied. \<open>index_t\<close> is the engine's unsigned 32-bit index type: the casts
  \<open>(xLearn::index_t)j\<close> of the adapter are \<open>index_t\<close> below.
\<close>

type_synonym index_t = "32 word"

definition index_t :: "int \<Rightarrow> index_t" where
  "index_t x = word_of_int x"

record 'f Node =
  field_id :: index_t
  feat_id :: index_t
  feat_val :: 'f

record 'f DMatrix =
  row :: "'f Node list list"
  Y :: "'f list"
  norm_dm :: "'f list"
  has_label :: bool

definition new_DMatrix :: "'f DMatrix" where
  "new_DMatrix = \<lparr> row = [], Y = [], norm_dm = [], has_label = False \<rparr>"

text \<open>
  Construction allocates, and an allocation can fail: \<open>new\<close>, \<open>push_back\<close> and
  \<open>emplace_back\<close> throw \<open>std::bad_alloc\<close>, \<open>malloc\<close> and \<open>fopen\<close> return NULL. The
  state carries the number of allocations that will still succeed; the next one fails.
  A construction step returns the exception it threw, if any, with the matrix as the
  throw left it and the allocations that remain.
\<close>

type_synonym 'f building = "string option \<times> 'f DMatrix \<times> nat"

definition bad_alloc :: string where
  "bad_alloc = ''std::bad_alloc''"

text \<open>
  Modelled from the spec: \<open>DMatrix::AddRow\<close> (same header) appends a row: no node yet,
  and the engine's initial label and scalar, which the adapter overwrites (the label
  when a label array is given, the scalar always). The initial values are taken as 0
  and 1; no property below depends on them.
\<close>

definition AddRow :: "'f float_ops \<Rightarrow> 'f DMatrix \<times> nat \<Rightarrow> 'f building" where
  "AddRow ops st = (case st of (m, avail) \<Rightarrow>
     if avail = 0 then (Some bad_alloc, m, avail)
     else (None, m\<lparr> row := row m @ [[]], Y := Y m @ [fzero ops],
                      norm_dm := norm_dm m @ [fone ops] \<rparr>, avail - 1))"

text \<open>
  Modelled from the spec: \<open>DMatrix::AddNode(row_id, feat_id, feat_val, field_id)\<close> (same
  header) appends a node to the row \<open>row_id\<close>. The adapter only passes the index of the
  row it has just added.
\<close>

definition AddNode :: "nat \<Rightarrow> index_t \<Rightarrow> 'f \<Rightarrow> index_t \<Rightarrow> 'f DMatrix \<times> nat \<Rightarrow> 'f building" where
  "AddNode row_id feat feat_value field st = (case st of (m, avail) \<Rightarrow>
     if avail = 0 then (Some bad_alloc, m, avail)
     else (None, m\<lparr> row := (row m)[row_id := row m ! row_id @
              [\<lparr> field_id = field, feat_id = feat, feat_val = feat_value \<rparr>]] \<rparr>, avail - 1))"

subsection \<open>The process state\<close>

text \<open>
  A descriptor of the process refers to the console, to \<open>/dev/null\<close> or to a MEMFS file.
  The descriptor table has a fixed size; \<open>dup\<close> and \<open>open\<close> take the lowest free entry
  and fail when there is none.
\<close>

datatype stream = Console | DevNull | File string

type_synonym bytes = "char list"

datatype 'f engine_call =
    Call_Create string
  | Call_GetLastError
  | Call_SetStr nat string string
  | Call_SetInt nat string int
  | Call_SetFloat nat string 'f
  | Call_SetBool nat string bool
  | Call_SetDMatrix nat string nat
  | Call_Fit nat string
  | Call_PredictForMat nat string

text \<open>
  \<open>last_error\<close>, \<open>saved_stdout_fd\<close> and \<open>fit_counter\<close> are the adapter's statics.
  \<open>fit_counter\<close> is a C \<open>int\<close>, modelled as an integer: signed overflow is undefined
  in C, so the model describes the runs in which the counter stays below \<open>2^31\<close>.
  \<open>heap\<close> holds the matrices allocated by \<open>new\<close> (address \<open>k + 1\<close> at index \<open>k\<close>; 0 is the
  null pointer). \<open>calls\<close> records every call into the engine, \<open>staged\<close> every staging
  path generated, \<open>console\<close> every line that reached the console: they are the
  observations the properties are stated on.
\<close>

record ('e, 'f) world =
  last_error :: string
  saved_stdout_fd :: int
  fit_counter :: int
  fdtab :: "stream option list"
  files :: "string \<Rightarrow> bytes option"
  heap :: "'f DMatrix option list"
  mem :: nat
  engine :: 'e
  calls :: "'f engine_call list"
  staged :: "string list"
  console :: "string list"

text \<open>
  The engine's C API (\<open>src/c_api/c_api.h\<close> of the engine). Each entry point takes the
  engine's state and returns its status and the new state. \<open>XLearnFit\<close> and
  \<open>XLearnPredictForMat\<close> also read and write files and print lines on the standard
  output. Handles and matrices are passed by address. The adapter's statics are private
  to its translation unit; the engine is taken to leave the descriptor table as it
  found it.
\<close>

record ('e, 'f) engine_api =
  XLearnCreate :: "string \<Rightarrow> 'e \<Rightarrow> (int \<times> nat) \<times> 'e"
  XLearnGetLastError :: "'e \<Rightarrow> string option"
  XLearnSetStr :: "nat \<Rightarrow> string \<Rightarrow> string \<Rightarrow> 'e \<Rightarrow> int \<times> 'e"
  XLearnSetInt :: "nat \<Rightarrow> string \<Rightarrow> int \<Rightarrow> 'e \<Rightarrow> int \<times> 'e"
  XLearnSetFloat :: "nat \<Rightarrow> string \<Rightarrow> 'f \<Rightarrow> 'e \<Rightarrow> int \<times> 'e"
  XLearnSetBool :: "nat \<Rightarrow> string \<Rightarrow> bool \<Rightarrow> 'e \<Rightarrow> int \<times> 'e"
  XLearnSetDMatrix :: "nat \<Rightarrow> string \<Rightarrow> nat \<Rightarrow> 'e \<Rightarrow> int \<times> 'e"
  XLearnFit :: "nat \<Rightarrow> string \<Rightarrow> 'e \<Rightarrow> (string \<Rightarrow> bytes option) \<Rightarrow>
                  (int \<times> string list) \<times> 'e \<times> (string \<Rightarrow> bytes option)"
  XLearnPredictForMat :: "nat \<Rightarrow> string \<Rightarrow> 'e \<Rightarrow> (string \<Rightarrow> bytes option) \<Rightarrow>
                  (int \<times> 'f list \<times> string list) \<times> 'e \<times> (string \<Rightarrow> bytes option)"

subsection \<open>Error handling\<close>

definition set_error :: "string \<Rightarrow> ('e, 'f) world \<Rightarrow> ('e, 'f) world" where
  "set_error msg w = w\<lparr> last_error := take 1023 msg \<rparr>"

definition clear_error :: "('e, 'f) world \<Rightarrow> ('e, 'f) world" where
  "clear_error w = w\<lparr> last_error := [] \<rparr>"

definition wl_xl_get_last_error :: "('e, 'f) world \<Rightarrow> string" where
  "wl_xl_get_last_error w = last_error w"

text \<open>
  \<open>const char *err = XLearnGetLastError(); set_error(err ? err : fallback);\<close>
\<close>

definition set_engine_error :: "('e, 'f) engine_api \<Rightarrow> string \<Rightarrow> ('e, 'f) world \<Rightarrow> ('e, 'f) world" where
  "set_engine_error E fallback w =
     set_error (case XLearnGetLastError E (engine w) of Some err \<Rightarrow> err | None \<Rightarrow> fallback)
       (w\<lparr> calls := calls w @ [Call_GetLastError] \<rparr>)"

subsection \<open>Calls into the engine\<close>

definition call_SetStr :: "('e, 'f) engine_api \<Rightarrow> nat \<Rightarrow> string \<Rightarrow> string \<Rightarrow> ('e, 'f) world \<Rightarrow> int \<times> ('e, 'f) world" where
  "call_SetStr E h k v w = (case XLearnSetStr E h k v (engine w) of (ret, e) \<Rightarrow>
     (ret, w\<lparr> engine := e, calls := calls w @ [Call_SetStr h k v] \<rparr>))"

definition call_SetInt :: "('e, 'f) engine_api \<Rightarrow> nat \<Rightarrow> string \<Rightarrow> int \<Rightarrow> ('e, 'f) world \<Rightarrow> int \<times> ('e, 'f) world" where
  "call_SetInt E h k v w = (case XLearnSetInt E h k v (engine w) of (ret, e) \<Rightarrow>
     (ret, w\<lparr> engine := e, calls := calls w @ [Call_SetInt h k v] \<rparr>))"

definition call_SetFloat :: "('e, 'f) engine_api \<Rightarrow> nat \<Rightarrow> string \<Rightarrow> 'f \<Rightarrow> ('e, 'f) world \<Rightarrow> int \<times> ('e, 'f) world" where
  "call_SetFloat E h k v w = (case XLearnSetFloat E h k v (engine w) of (ret, e) \<Rightarrow>
     (ret, w\<lparr> engine := e, calls := calls w @ [Call_SetFloat h k v] \<rparr>))"

definition call_SetBool :: "('e, 'f) engine_api \<Rightarrow> nat \<Rightarrow> string \<Rightarrow> bool \<Rightarrow> ('e, 'f) world \<Rightarrow> int \<times> ('e, 'f) world" where
  "call_SetBool E h k v w = (case XLearnSetBool E h k v (engine w) of (ret, e) \<Rightarrow>
     (ret, w\<lparr> engine := e, calls := calls w @ [Call_SetBool h k v] \<rparr>))"

definition call_SetDMatrix :: "('e, 'f) engine_api \<Rightarrow> nat \<Rightarrow> string \<Rightarrow> nat \<Rightarrow> ('e, 'f) world \<Rightarrow> int \<times> ('e, 'f) world" where
  "call_SetDMatrix E h role d w = (case XLearnSetDMatrix E h role d (engine w) of (ret, e) \<Rightarrow>
     (ret, w\<lparr> engine := e, calls := calls w @ [Call_SetDMatrix h role d] \<rparr>))"

definition call_Create :: "('e, 'f) engine_api \<Rightarrow> string \<Rightarrow> ('e, 'f) world \<Rightarrow> (int \<times> nat) \<times> ('e, 'f) world" where
  "call_Create E model_type w = (case XLearnCreate E model_type (engine w) of (r, e) \<Rightarrow>
     (r, w\<lparr> engine := e, calls := calls w @ [Call_Create model_type] \<rparr>))"

subsection \<open>Handle lifecycle and parameter setters\<close>

text \<open>
  What a call hands back through its output pointers; \<open>None\<close> when it wrote none of them.
\<close>

datatype 'f outval =
    Out_handle nat
  | Out_matrix nat
  | Out_model bytes int
  | Out_preds "'f list" int

type_synonym ('e, 'f) ret = "(int \<times> 'f outval option) \<times> ('e, 'f) world"

text \<open>
  Pointers to strings and arrays are \<open>None\<close> when null; opaque pointers (handles,
  matrices, output slots) are addresses, 0 when null.
\<close>

definition wl_xl_create :: "('e, 'f) engine_api \<Rightarrow> string option \<Rightarrow> nat \<Rightarrow> ('e, 'f) world \<Rightarrow> ('e, 'f) ret" where
  "wl_xl_create E model_type out w0 =
    (let w = clear_error w0 in
     case model_type of
       None \<Rightarrow> ((-1, None), set_error ''wl_xl_create: null argument'' w)
     | Some mt \<Rightarrow>
        if out = 0 then ((-1, None), set_error ''wl_xl_create: null argument'' w)
        else (case call_Create E mt w of ((ret, handle), w1) \<Rightarrow>
          if ret \<noteq> 0 then ((-1, None), set_engine_error E ''XLearnCreate failed'' w1)
          else
            let w2 = snd (call_SetBool E handle ''quiet'' True w1);
                w3 = snd (call_SetBool E handle ''lock_free'' False w2);
                w4 = snd (call_SetBool E handle ''from_file'' False w3);
                w5 = snd (call_SetBool E handle ''bin_out'' False w4);
                w6 = snd (call_SetBool E handle ''early_stop'' False w5);
                w7 = snd (call_SetInt E handle ''nthread'' 1 w6);
                w8 = snd (call_SetStr E handle ''log'' ''/dev/null'' w7)
            in ((0, Some (Out_handle handle)), w8)))"

definition wl_xl_set_str :: "('e, 'f) engine_api \<Rightarrow> nat \<Rightarrow> string option \<Rightarrow> string option \<Rightarrow> ('e, 'f) world \<Rightarrow> ('e, 'f) ret" where
  "wl_xl_set_str E handle key val w =
    (case (key, val) of
       (Some k, Some v) \<Rightarrow>
         if handle = 0 then ((-1, None), set_error ''wl_xl_set_str: null argument'' w)
         else (case call_SetStr E handle k v w of (ret, w1) \<Rightarrow> ((ret, None), w1))
     | _ \<Rightarrow> ((-1, None), set_error ''wl_xl_set_str: null argument'' w))"

definition wl_xl_set_int :: "('e, 'f) engine_api \<Rightarrow> nat \<Rightarrow> string option \<Rightarrow> int \<Rightarrow> ('e, 'f) world \<Rightarrow> ('e, 'f) ret" where
  "wl_xl_set_int E handle key val w =
    (case key of
       Some k \<Rightarrow>
         if handle = 0 then ((-1, None), set_error ''wl_xl_set_int: null argument'' w)
         else (case call_SetInt E handle k val w of (ret, w1) \<Rightarrow> ((ret, None), w1))
     | None \<Rightarrow> ((-1, None), set_error ''wl_xl_set_int: null argument'' w))"

definition wl_xl_set_float :: "('e, 'f) engine_api \<Rightarrow> nat \<Rightarrow> string option \<Rightarrow> 'f \<Rightarrow> ('e, 'f) world \<Rightarrow> ('e, 'f) ret" where
  "wl_xl_set_float E handle key val w =
    (case key of
       Some k \<Rightarrow>
         if handle = 0 then ((-1, None), set_error ''wl_xl_set_float: null argument'' w)
         else (case call_SetFloat E handle k val w of (ret, w1) \<Rightarrow> ((ret, None), w1))
     | None \<Rightarrow> ((-1, None), set_error ''wl_xl_set_float: null argument'' w))"

text \<open>The C \<open>int\<close> value is cast to \<open>bool\<close>: any nonzero value is true.\<close>

definition wl_xl_set_bool :: "('e, 'f) engine_api \<Rightarrow> nat \<Rightarrow> string option \<Rightarrow> int \<Rightarrow> ('e, 'f) world \<Rightarrow> ('e, 'f) ret" where
  "wl_xl_set_bool E handle key val w =
    (case key of
       Some k \<Rightarrow>
         if handle = 0 then ((-1, None), set_error ''wl_xl_set_bool: null argument'' w)
         else (case call_SetBool E handle k (val \<noteq> 0) w of (ret, w1) \<Rightarrow> ((ret, None), w1))
     | None \<Rightarrow> ((-1, None), set_error ''wl_xl_set_bool: null argument'' w))"

subsection \<open>Matrix construction\<close>

text \<open>
  A non-null pointer to an array is modelled by the function from offsets to the values
  stored there. Loop counters and dimensions are C \<open>int\<close>s, modelled as integers:
  \<open>i * ncol + j\<close> stays in range for an array that fits the address space.
\<close>

type_synonym 'a carray = "int \<Rightarrow> 'a"

definition field_of :: "int carray option \<Rightarrow> int \<Rightarrow> index_t" where
  "field_of field_map j = (case field_map of Some fm \<Rightarrow> index_t (fm j) | None \<Rightarrow> 0)"

definition set_Y :: "nat \<Rightarrow> 'f \<Rightarrow> 'f DMatrix \<times> nat \<Rightarrow> 'f DMatrix \<times> nat" where
  "set_Y i v st = (case st of (m, avail) \<Rightarrow> (m\<lparr> Y := (Y m)[i := v] \<rparr>, avail))"

definition set_norm :: "nat \<Rightarrow> 'f \<Rightarrow> 'f DMatrix \<times> nat \<Rightarrow> 'f DMatrix \<times> nat" where
  "set_norm i v st = (case st of (m, avail) \<Rightarrow> (m\<lparr> norm_dm := (norm_dm m)[i := v] \<rparr>, avail))"

text \<open>\<open>(norm > 0.0f) ? (1.0f / norm) : 1.0f\<close>\<close>

definition norm_scalar :: "'f float_ops \<Rightarrow> 'f \<Rightarrow> 'f" where
  "norm_scalar ops nrm = (if fgt ops nrm (fzero ops) then fdiv ops (fone ops) nrm else fone ops)"

text \<open>The inner loop of \<open>wl_xl_create_dmatrix_dense\<close>, from column \<open>j\<close> on.\<close>

function dense_cols ::
  "'f float_ops \<Rightarrow> 'f carray \<Rightarrow> int \<Rightarrow> int carray option \<Rightarrow> int \<Rightarrow> int \<Rightarrow> 'f \<Rightarrow>
     'f DMatrix \<times> nat \<Rightarrow> string option \<times> 'f \<times> 'f DMatrix \<times> nat" where
  "dense_cols ops data ncol field_map i j nrm st =
     (if j < ncol then
        (let val = data (i * ncol + j) in
         if feq ops val (fzero ops) then dense_cols ops data ncol field_map i (j + 1) nrm st
         else (case AddNode (nat i) (index_t j) val (field_of field_map j) st of
                 (Some e, st1) \<Rightarrow> (Some e, nrm, st1)
               | (None, st1) \<Rightarrow>
                   dense_cols ops data ncol field_map i (j + 1)
                     (fadd ops nrm (fmul ops val val)) st1))
      else (None, nrm, st))"
  by pat_completeness auto
termination
  by (relation "measure (\<lambda>(ops, data, ncol, field_map, i, j, nrm, st). nat (ncol - j))") auto

declare dense_cols.simps [simp del]

text \<open>The outer loop of \<open>wl_xl_create_dmatrix_dense\<close>, from row \<open>i\<close> on.\<close>

function dense_rows ::
  "'f float_ops \<Rightarrow> 'f carray \<Rightarrow> int \<Rightarrow> int \<Rightarrow> 'f carray option \<Rightarrow> int carray option \<Rightarrow> int \<Rightarrow>
     'f DMatrix \<times> nat \<Rightarrow> string option \<times> 'f DMatrix \<times> nat" where
  "dense_rows ops data nrow ncol label field_map i st =
     (if i < nrow then
        (case AddRow ops st of
           (Some e, st1) \<Rightarrow> (Some e, st1)
         | (None, st1) \<Rightarrow>
             (let st2 = (case label of Some l \<Rightarrow> set_Y (nat i) (l i) st1 | None \<Rightarrow> st1) in
              case dense_cols ops data ncol field_map i 0 (fzero ops) st2 of
                (Some e, nrm, st3) \<Rightarrow> (Some e, st3)
              | (None, nrm, st3) \<Rightarrow>
                  dense_rows ops data nrow ncol label field_map (i + 1)
                    (set_norm (nat i) (norm_scalar ops nrm) st3)))
      else (None, st))"
  by pat_completeness auto
termination
  by (relation "measure (\<lambda>(ops, data, nrow, ncol, label, field_map, i, st). nat (nrow - i))") auto

declare dense_rows.simps [simp del]

text \<open>
  \<open>new xLearn::DMatrix()\<close> is the first allocation. When a later one throws, the handler
  stores \<open>e.what()\<close> and returns -1; \<open>matrix\<close> is out of scope there and is not
  deleted, so the object stays on the heap as the throw left it.
\<close>

definition is_null :: "'a option \<Rightarrow> bool" where
  "is_null p = (case p of None \<Rightarrow> True | Some _ \<Rightarrow> False)"

definition finish_build :: "string option \<times> 'f DMatrix \<times> nat \<Rightarrow> ('e, 'f) world \<Rightarrow> ('e, 'f) ret" where
  "finish_build r w = (case r of
      (Some e, m, mem1) \<Rightarrow> ((-1, None), set_error e (w\<lparr> heap := heap w @ [Some m], mem := mem1 \<rparr>))
    | (None, m, mem1) \<Rightarrow>
        ((0, Some (Out_matrix (length (heap w) + 1))), w\<lparr> heap := heap w @ [Some m], mem := mem1 \<rparr>))"

definition wl_xl_create_dmatrix_dense ::
  "'f float_ops \<Rightarrow> 'f carray option \<Rightarrow> int \<Rightarrow> int \<Rightarrow> 'f carray option \<Rightarrow> int carray option \<Rightarrow> nat \<Rightarrow>
     ('e, 'f) world \<Rightarrow> ('e, 'f) ret" where
  "wl_xl_create_dmatrix_dense ops data nrow ncol label field_map out w0 =
    (let w = clear_error w0 in
     case data of
       None \<Rightarrow> ((-1, None), set_error ''wl_xl_create_dmatrix_dense: invalid arguments'' w)
     | Some d \<Rightarrow>
        if nrow \<le> 0 \<or> ncol \<le> 0 \<or> out = 0
        then ((-1, None), set_error ''wl_xl_create_dmatrix_dense: invalid arguments'' w)
        else if mem w = 0 then ((-1, None), set_error bad_alloc w)
        else finish_build
               (dense_rows ops d nrow ncol label field_map 0
                  (new_DMatrix\<lparr> has_label := \<not> is_null label \<rparr>, mem w - 1)) w)"

text \<open>The inner loop of \<open>wl_xl_create_dmatrix_csr\<close>, from entry \<open>j\<close> up to \<open>end\<close>.\<close>

function csr_entries ::
  "'f float_ops \<Rightarrow> 'f carray \<Rightarrow> int carray \<Rightarrow> int carray option \<Rightarrow> int \<Rightarrow> int \<Rightarrow> int \<Rightarrow> 'f \<Rightarrow>
     'f DMatrix \<times> nat \<Rightarrow> string option \<times> 'f \<times> 'f DMatrix \<times> nat" where
  "csr_entries ops values col_indices field_map i j end_j nrm st =
     (if j < end_j then
        (let col = col_indices j; val = values j in
         case AddNode (nat i) (index_t col) val (field_of field_map col) st of
           (Some e, st1) \<Rightarrow> (Some e, nrm, st1)
         | (None, st1) \<Rightarrow>
             csr_entries ops values col_indices field_map i (j + 1) end_j
               (fadd ops nrm (fmul ops val val)) st1)
      else (None, nrm, st))"
  by pat_completeness auto
termination
  by (relation "measure (\<lambda>(ops, values, col_indices, field_map, i, j, end_j, nrm, st). nat (end_j - j))") auto

declare csr_entries.simps [simp del]

text \<open>The outer loop of \<open>wl_xl_create_dmatrix_csr\<close>, from row \<open>i\<close> on.\<close>

function csr_rows ::
  "'f float_ops \<Rightarrow> 'f carray \<Rightarrow> int carray \<Rightarrow> int carray \<Rightarrow> int \<Rightarrow> 'f carray option \<Rightarrow>
     int carray option \<Rightarrow> int \<Rightarrow> 'f DMatrix \<times> nat \<Rightarrow> string option \<times> 'f DMatrix \<times> nat" where
  "csr_rows ops values col_indices row_ptr nrow label field_map i st =
     (if i < nrow then
        (case AddRow ops st of
           (Some e, st1) \<Rightarrow> (Some e, st1)
         | (None, st1) \<Rightarrow>
             (let st2 = (case label of Some l \<Rightarrow> set_Y (nat i) (l i) st1 | None \<Rightarrow> st1) in
              case csr_entries ops values col_indices field_map i (row_ptr i) (row_ptr (i + 1))
                     (fzero ops) st2 of
                (Some e, nrm, st3) \<Rightarrow> (Some e, st3)
              | (None, nrm, st3) \<Rightarrow>
                  csr_rows ops values col_indices row_ptr nrow label field_map (i + 1)
                    (set_norm (nat i) (norm_scalar ops nrm) st3)))
      else (None, st))"
  by pat_completeness auto
termination
  by (relation "measure (\<lambda>(ops, values, col_indices, row_ptr, nrow, label, field_map, i, st). nat (nrow - i))") auto

declare csr_rows.simps [simp del]

text \<open>\<open>nnz\<close> is a parameter the function never reads.\<close>

definition wl_xl_create_dmatrix_csr ::
  "'f float_ops \<Rightarrow> 'f carray option \<Rightarrow> int \<Rightarrow> int carray option \<Rightarrow> int carray option \<Rightarrow> int \<Rightarrow> int \<Rightarrow>
     'f carray option \<Rightarrow> int carray option \<Rightarrow> nat \<Rightarrow> ('e, 'f) world \<Rightarrow> ('e, 'f) ret" where
  "wl_xl_create_dmatrix_csr ops values nnz col_indices row_ptr nrow ncol label field_map out w0 =
    (let w = clear_error w0 in
     case (values, col_indices, row_ptr) of
       (Some vs, Some cs, Some rp) \<Rightarrow>
        if nrow \<le> 0 \<or> ncol \<le> 0 \<or> out = 0
        then ((-1, None), set_error ''wl_xl_create_dmatrix_csr: invalid arguments'' w)
        else if mem w = 0 then ((-1, None), set_error bad_alloc w)
        else finish_build
               (csr_rows ops vs cs rp nrow label field_map 0
                  (new_DMatrix\<lparr> has_label := \<not> is_null label \<rparr>, mem w - 1)) w
     | _ \<Rightarrow> ((-1, None), set_error ''wl_xl_create_dmatrix_csr: invalid arguments'' w))"

text \<open>\<open>wl_xl_free_dmatrix\<close>: \<open>dm->Reset(); delete dm;\<close> releases the matrix at \<open>dmatrix\<close>.\<close>

definition wl_xl_free_dmatrix :: "nat \<Rightarrow> ('e, 'f) world \<Rightarrow> ('e, 'f) world" where
  "wl_xl_free_dmatrix dmatrix w =
     (if dmatrix \<noteq> 0 then w\<lparr> heap := (heap w)[dmatrix - 1 := None] \<rparr> else w)"

text \<open>
  The construction by a list of rows, each with its label and its entries (column,
  value): both loops are instances of it, which is how they are compared.
\<close>

fun add_entries ::
  "'f float_ops \<Rightarrow> nat \<Rightarrow> int carray option \<Rightarrow> (int \<times> 'f) list \<Rightarrow> 'f \<Rightarrow>
     'f DMatrix \<times> nat \<Rightarrow> string option \<times> 'f \<times> 'f DMatrix \<times> nat" where
  "add_entries ops i field_map [] nrm st = (None, nrm, st)"
| "add_entries ops i field_map (cv # es) nrm st =
     (case AddNode i (index_t (fst cv)) (snd cv) (field_of field_map (fst cv)) st of
        (Some e, st1) \<Rightarrow> (Some e, nrm, st1)
      | (None, st1) \<Rightarrow>
          add_entries ops i field_map es (fadd ops nrm (fmul ops (snd cv) (snd cv))) st1)"

fun build_rows ::
  "'f float_ops \<Rightarrow> int carray option \<Rightarrow> nat \<Rightarrow> ('f option \<times> (int \<times> 'f) list) list \<Rightarrow>
     'f DMatrix \<times> nat \<Rightarrow> string option \<times> 'f DMatrix \<times> nat" where
  "build_rows ops field_map i [] st = (None, st)"
| "build_rows ops field_map i (r # rs) st =
     (case AddRow ops st of
        (Some e, st1) \<Rightarrow> (Some e, st1)
      | (None, st1) \<Rightarrow>
          (let st2 = (case fst r of Some l \<Rightarrow> set_Y i l st1 | None \<Rightarrow> st1) in
           case add_entries ops i field_map (snd r) (fzero ops) st2 of
             (Some e, nrm, st3) \<Rightarrow> (Some e, st3)
           | (None, nrm, st3) \<Rightarrow>
               build_rows ops field_map (Suc i) rs (set_norm i (norm_scalar ops nrm) st3)))"

text \<open>The entries of row \<open>i\<close> of a dense array from column \<open>j\<close> on: the nonzero ones.\<close>

definition dense_entries :: "'f float_ops \<Rightarrow> 'f carray \<Rightarrow> int \<Rightarrow> int \<Rightarrow> int \<Rightarrow> (int \<times> 'f) list" where
  "dense_entries ops data ncol i j =
     map (\<lambda>j. (j, data (i * ncol + j)))
       (filter (\<lambda>j. \<not> feq ops (data (i * ncol + j)) (fzero ops)) [j..ncol - 1])"

definition csr_row_entries :: "'f carray \<Rightarrow> int carray \<Rightarrow> int \<Rightarrow> int \<Rightarrow> (int \<times> 'f) list" where
  "csr_row_entries values col_indices j end_j = map (\<lambda>k. (col_indices k, values k)) [j..end_j - 1]"

definition dense_row_list ::
  "'f float_ops \<Rightarrow> 'f carray \<Rightarrow> int \<Rightarrow> int \<Rightarrow> 'f carray option \<Rightarrow> int \<Rightarrow> ('f option \<times> (int \<times> 'f) list) list" where
  "dense_row_list ops data nrow ncol label i =
     map (\<lambda>i. (map_option (\<lambda>l. l i) label, dense_entries ops data ncol i 0)) [i..nrow - 1]"

definition csr_row_list ::
  "'f carray \<Rightarrow> int carray \<Rightarrow> int carray \<Rightarrow> int \<Rightarrow> 'f carray option \<Rightarrow> int \<Rightarrow> ('f option \<times> (int \<times> 'f) list) list" where
  "csr_row_list values col_indices row_ptr nrow label i =
     map (\<lambda>i. (map_option (\<lambda>l. l i) label,
               csr_row_entries values col_indices (row_ptr i) (row_ptr (i + 1)))) [i..nrow - 1]"

definition node_of :: "int carray option \<Rightarrow> int \<times> 'f \<Rightarrow> 'f Node" where
  "node_of field_map cv =
     \<lparr> field_id = field_of field_map (fst cv), feat_id = index_t (fst cv), feat_val = snd cv \<rparr>"

text \<open>The norm accumulator after the values \<open>vs\<close>: \<open>norm += val * val\<close> for each, in order.\<close>

definition sum_sq :: "'f float_ops \<Rightarrow> 'f \<Rightarrow> 'f list \<Rightarrow> 'f" where
  "sum_sq ops nrm vs = foldl (\<lambda>a v. fadd ops a (fmul ops v v)) nrm vs"

definition built_row :: "int carray option \<Rightarrow> 'f option \<times> (int \<times> 'f) list \<Rightarrow> 'f Node list" where
  "built_row field_map r = map (node_of field_map) (snd r)"

definition built_norm :: "'f float_ops \<Rightarrow> 'f option \<times> (int \<times> 'f) list \<Rightarrow> 'f" where
  "built_norm ops r = norm_scalar ops (sum_sq ops (fzero ops) (map snd (snd r)))"

definition built_label :: "'f float_ops \<Rightarrow> 'f option \<times> (int \<times> 'f) list \<Rightarrow> 'f" where
  "built_label ops r = (case fst r of Some l \<Rightarrow> l | None \<Rightarrow> fzero ops)"

text \<open>
  The explicitly sparse representation of a dense array, as the spec describes it: the
  nonzero entries of each row in column order, row after row, with their column indices,
  and the offsets of the rows (CSR: \<open>row_ptr[i]\<close> is the number of entries before row
  \<open>i\<close>).
\<close>

definition sparse_rows :: "'f float_ops \<Rightarrow> 'f carray \<Rightarrow> int \<Rightarrow> int \<Rightarrow> (int \<times> 'f) list list" where
  "sparse_rows ops data nrow ncol = map (\<lambda>i. dense_entries ops data ncol i 0) [0..nrow - 1]"

definition csr_values_of :: "'f float_ops \<Rightarrow> 'f carray \<Rightarrow> int \<Rightarrow> int \<Rightarrow> 'f carray" where
  "csr_values_of ops data nrow ncol k = snd (concat (sparse_rows ops data nrow ncol) ! nat k)"

definition csr_col_indices_of :: "'f float_ops \<Rightarrow> 'f carray \<Rightarrow> int \<Rightarrow> int \<Rightarrow> int carray" where
  "csr_col_indices_of ops data nrow ncol k = fst (concat (sparse_rows ops data nrow ncol) ! nat k)"

definition csr_row_ptr_of :: "'f float_ops \<Rightarrow> 'f carray \<Rightarrow> int \<Rightarrow> int \<Rightarrow> int carray" where
  "csr_row_ptr_of ops data nrow ncol i =
     int (length (concat (take (nat i) (sparse_rows ops data nrow ncol))))"

text \<open>
  The normalization scalar as the spec words it: 1 divided by the sum when the sum is
  nonzero, 1 when it is zero.
\<close>

definition spec_scalar :: "'f float_ops \<Rightarrow> 'f \<Rightarrow> 'f" where
  "spec_scalar ops s = (if feq ops s (fzero ops) then fone ops else fdiv ops (fone ops) s)"

subsection \<open>Descriptors and files\<close>

fun lowest_free :: "stream option list \<Rightarrow> nat option" where
  "lowest_free [] = None"
| "lowest_free (None # t) = Some 0"
| "lowest_free (Some s # t) = map_option Suc (lowest_free t)"

definition fd_open :: "int \<Rightarrow> stream option list \<Rightarrow> bool" where
  "fd_open fd tab = (0 \<le> fd \<and> nat fd < length tab \<and> \<not> is_null (tab ! nat fd))"

definition sys_dup :: "int \<Rightarrow> ('e, 'f) world \<Rightarrow> int \<times> ('e, 'f) world" where
  "sys_dup fd w =
     (if fd_open fd (fdtab w) then
        (case lowest_free (fdtab w) of
           None \<Rightarrow> (-1, w)
         | Some k \<Rightarrow> (int k, w\<lparr> fdtab := (fdtab w)[k := fdtab w ! nat fd] \<rparr>))
      else (-1, w))"

definition sys_open :: "stream \<Rightarrow> ('e, 'f) world \<Rightarrow> int \<times> ('e, 'f) world" where
  "sys_open s w =
     (case lowest_free (fdtab w) of
        None \<Rightarrow> (-1, w)
      | Some k \<Rightarrow> (int k, w\<lparr> fdtab := (fdtab w)[k := Some s] \<rparr>))"

definition sys_dup2 :: "int \<Rightarrow> int \<Rightarrow> ('e, 'f) world \<Rightarrow> ('e, 'f) world" where
  "sys_dup2 old new w =
     (if fd_open old (fdtab w) \<and> 0 \<le> new \<and> nat new < length (fdtab w)
      then w\<lparr> fdtab := (fdtab w)[nat new := fdtab w ! nat old] \<rparr> else w)"

definition sys_close :: "int \<Rightarrow> ('e, 'f) world \<Rightarrow> ('e, 'f) world" where
  "sys_close fd w = (if fd_open fd (fdtab w) then w\<lparr> fdtab := (fdtab w)[nat fd := None] \<rparr> else w)"

definition sys_remove :: "string \<Rightarrow> ('e, 'f) world \<Rightarrow> ('e, 'f) world" where
  "sys_remove path w = w\<lparr> files := (files w)(path := None) \<rparr>"

text \<open>
  \<open>fopen\<close> needs the file (mode \<open>"rb"\<close>), a free descriptor and memory for the stream;
  it returns the stream (its descriptor) or NULL. A failed \<open>fopen\<close> leaves no file.
\<close>

definition fopen_rb :: "string \<Rightarrow> ('e, 'f) world \<Rightarrow> nat option \<times> ('e, 'f) world" where
  "fopen_rb path w =
     (if is_null (files w path) \<or> mem w = 0 then (None, w)
      else (case lowest_free (fdtab w) of
              None \<Rightarrow> (None, w)
            | Some k \<Rightarrow> (Some k, w\<lparr> fdtab := (fdtab w)[k := Some (File path)], mem := mem w - 1 \<rparr>)))"

definition fopen_wb :: "string \<Rightarrow> ('e, 'f) world \<Rightarrow> nat option \<times> ('e, 'f) world" where
  "fopen_wb path w =
     (if mem w = 0 then (None, w)
      else (case lowest_free (fdtab w) of
              None \<Rightarrow> (None, w)
            | Some k \<Rightarrow> (Some k, w\<lparr> fdtab := (fdtab w)[k := Some (File path)], mem := mem w - 1,
                                       files := (files w)(path \<mapsto> []) \<rparr>)))"

definition fclose :: "nat \<Rightarrow> ('e, 'f) world \<Rightarrow> ('e, 'f) world" where
  "fclose f w = w\<lparr> fdtab := (fdtab w)[f := None] \<rparr>"

definition file_bytes :: "string \<Rightarrow> ('e, 'f) world \<Rightarrow> bytes" where
  "file_bytes path w = (case files w path of Some content \<Rightarrow> content | None \<Rightarrow> [])"

subsection \<open>Suppression of the standard output\<close>

definition suppress_stdout :: "('e, 'f) world \<Rightarrow> ('e, 'f) world" where
  "suppress_stdout w =
     (case sys_dup 1 w of (saved, w1) \<Rightarrow>
      case sys_open DevNull (w1\<lparr> saved_stdout_fd := saved \<rparr>) of (devnull, w2) \<Rightarrow>
        sys_close devnull (sys_dup2 devnull 1 w2))"

definition restore_stdout :: "('e, 'f) world \<Rightarrow> ('e, 'f) world" where
  "restore_stdout w =
     (if saved_stdout_fd w \<ge> 0
      then (sys_close (saved_stdout_fd w) (sys_dup2 (saved_stdout_fd w) 1 w))\<lparr> saved_stdout_fd := -1 \<rparr>
      else w)"

text \<open>Lines written to descriptor 1 reach the console when that is what it refers to.\<close>

definition emit :: "string list \<Rightarrow> ('e, 'f) world \<Rightarrow> ('e, 'f) world" where
  "emit ls w = (if 1 < length (fdtab w) \<and> fdtab w ! 1 = Some Console
                then w\<lparr> console := console w @ ls \<rparr> else w)"

definition call_Fit :: "('e, 'f) engine_api \<Rightarrow> nat \<Rightarrow> string \<Rightarrow> ('e, 'f) world \<Rightarrow> int \<times> ('e, 'f) world" where
  "call_Fit E h path w = (case XLearnFit E h path (engine w) (files w) of ((ret, printed), e, fs) \<Rightarrow>
     (ret, emit printed (w\<lparr> engine := e, files := fs, calls := calls w @ [Call_Fit h path] \<rparr>)))"

definition call_PredictForMat ::
  "('e, 'f) engine_api \<Rightarrow> nat \<Rightarrow> string \<Rightarrow> ('e, 'f) world \<Rightarrow> (int \<times> 'f list) \<times> ('e, 'f) world" where
  "call_PredictForMat E h path w =
     (case XLearnPredictForMat E h path (engine w) (files w) of ((ret, arr, printed), e, fs) \<Rightarrow>
        ((ret, arr), emit printed (w\<lparr> engine := e, files := fs,
                                      calls := calls w @ [Call_PredictForMat h path] \<rparr>)))"

subsection \<open>Staging paths\<close>

text \<open>The \<open>%d\<close> conversion of \<open>snprintf\<close>.\<close>

definition digit_char :: "nat \<Rightarrow> char" where
  "digit_char d = ''0123456789'' ! d"

fun dec_nat :: "nat \<Rightarrow> string" where
  "dec_nat n = (if n < 10 then [digit_char n] else dec_nat (n div 10) @ [digit_char (n mod 10)])"

declare dec_nat.simps [simp del]

definition dec_int :: "int \<Rightarrow> string" where
  "dec_int i = (if i < 0 then CHR ''-'' # dec_nat (nat (- i)) else dec_nat (nat i))"

text \<open>
  \<open>snprintf(buf, n, prefix "%d", c)\<close>: the prefix and the number, cut to the
  \<open>n - 1\<close> characters that fit before the terminator.
\<close>

definition snprintf_d :: "nat \<Rightarrow> string \<Rightarrow> int \<Rightarrow> string" where
  "snprintf_d n prefix c = take (n - 1) (prefix @ dec_int c)"

text \<open>
  \<open>char model_path[64]; snprintf(model_path, sizeof(model_path), prefix "%d", fit_counter++)\<close>
\<close>

definition next_path :: "string \<Rightarrow> ('e, 'f) world \<Rightarrow> string \<times> ('e, 'f) world" where
  "next_path prefix w =
     (let p = snprintf_d 64 prefix (fit_counter w)
      in (p, w\<lparr> fit_counter := fit_counter w + 1, staged := staged w @ [p] \<rparr>))"

text \<open>
  The staging paths generated so far are those of the counter values from \<open>c0\<close> on, one
  after the other, each with the prefix of \<open>fit\<close> or of \<open>predict\<close>.
\<close>

definition staging_inv :: "int \<Rightarrow> ('e, 'f) world \<Rightarrow> bool" where
  "staging_inv c0 w =
     (fit_counter w = c0 + int (length (staged w)) \<and>
      (\<forall>i < length (staged w).
         staged w ! i = snprintf_d 64 ''/tmp/wl_xl_model_'' (c0 + int i) \<or>
         staged w ! i = snprintf_d 64 ''/tmp/wl_xl_pred_'' (c0 + int i)))"

subsection \<open>Train\<close>

text \<open>Lines 281 to 306 of \<open>wl_xl_fit\<close>: the model is read back from MEMFS.\<close>

definition fit_read_model :: "string \<Rightarrow> ('e, 'f) world \<Rightarrow> ('e, 'f) ret" where
  "fit_read_model model_path w =
     (case fopen_rb model_path w of
        (None, w1) \<Rightarrow> ((-1, None), set_error ''wl_xl_fit: cannot read model file from MEMFS'' w1)
      | (Some f, w1) \<Rightarrow>
          (let buf = file_bytes model_path w1 in
           if mem w1 = 0
           then ((-1, None), set_error ''wl_xl_fit: allocation failed''
                               (sys_remove model_path (fclose f w1)))
           else ((0, Some (Out_model buf (int (length buf)))),
                 sys_remove model_path (fclose f (w1\<lparr> mem := mem w1 - 1 \<rparr>)))))"

text \<open>Lines 267 to 279: the staging path, the suppressed call of the engine.\<close>

definition fit_train :: "('e, 'f) engine_api \<Rightarrow> nat \<Rightarrow> ('e, 'f) world \<Rightarrow> ('e, 'f) ret" where
  "fit_train E handle w =
     (case next_path ''/tmp/wl_xl_model_'' w of (model_path, w1) \<Rightarrow>
      case call_Fit E handle model_path (suppress_stdout w1) of (ret, w2) \<Rightarrow>
        (let w3 = restore_stdout w2 in
         if ret \<noteq> 0
         then ((-1, None), sys_remove model_path (set_engine_error E ''XLearnFit failed'' w3))
         else fit_read_model model_path w3))"

definition wl_xl_fit ::
  "('e, 'f) engine_api \<Rightarrow> nat \<Rightarrow> nat \<Rightarrow> nat \<Rightarrow> nat \<Rightarrow> nat \<Rightarrow> ('e, 'f) world \<Rightarrow> ('e, 'f) ret" where
  "wl_xl_fit E handle dtrain dvalid out_model_buf out_model_len w0 =
    (let w = clear_error w0 in
     if handle = 0 \<or> dtrain = 0 \<or> out_model_buf = 0 \<or> out_model_len = 0
     then ((-1, None), set_error ''wl_xl_fit: null argument'' w)
     else (case call_SetDMatrix E handle ''train'' dtrain w of (ret, w1) \<Rightarrow>
       if ret \<noteq> 0 then ((-1, None), set_engine_error E ''XLearnSetDMatrix(train) failed'' w1)
       else if dvalid \<noteq> 0 then
         (case call_SetDMatrix E handle ''validate'' dvalid w1 of (ret2, w2) \<Rightarrow>
            if ret2 \<noteq> 0
            then ((-1, None), set_engine_error E ''XLearnSetDMatrix(validate) failed'' w2)
            else fit_train E handle w2)
       else fit_train E handle w1))"

subsection \<open>Predict\<close>

text \<open>Lines 345 to 370 of \<open>wl_xl_predict\<close>.\<close>

definition predict_run :: "('e, 'f) engine_api \<Rightarrow> nat \<Rightarrow> string \<Rightarrow> ('e, 'f) world \<Rightarrow> ('e, 'f) ret" where
  "predict_run E handle model_path w =
     (case call_PredictForMat E handle model_path (suppress_stdout w) of ((ret, arr), w1) \<Rightarrow>
        (let w2 = sys_remove model_path (restore_stdout w1) in
         if ret \<noteq> 0 then ((-1, None), set_engine_error E ''XLearnPredictForMat failed'' w2)
         else if mem w2 = 0 then ((-1, None), set_error ''wl_xl_predict: allocation failed'' w2)
         else ((0, Some (Out_preds arr (int (length arr)))), w2\<lparr> mem := mem w2 - 1 \<rparr>)))"

definition fwrite :: "string \<Rightarrow> bytes \<Rightarrow> ('e, 'f) world \<Rightarrow> ('e, 'f) world" where
  "fwrite path content w = w\<lparr> files := (files w)(path \<mapsto> file_bytes path w @ content) \<rparr>"

definition wl_xl_predict ::
  "('e, 'f) engine_api \<Rightarrow> nat \<Rightarrow> bytes option \<Rightarrow> int \<Rightarrow> nat \<Rightarrow> nat \<Rightarrow> nat \<Rightarrow> ('e, 'f) world \<Rightarrow> ('e, 'f) ret" where
  "wl_xl_predict E handle model_buf model_len dtest out_preds out_len w0 =
    (let w = clear_error w0 in
     case model_buf of
       None \<Rightarrow> ((-1, None), set_error ''wl_xl_predict: null argument'' w)
     | Some buf \<Rightarrow>
        if handle = 0 \<or> model_len \<le> 0 \<or> dtest = 0 \<or> out_preds = 0 \<or> out_len = 0
        then ((-1, None), set_error ''wl_xl_predict: null argument'' w)
        else (case next_path ''/tmp/wl_xl_pred_'' w of (model_path, w1) \<Rightarrow>
          case fopen_wb model_path w1 of
            (None, w2) \<Rightarrow>
              ((-1, None), set_error ''wl_xl_predict: cannot create model file in MEMFS'' w2)
          | (Some f, w2) \<Rightarrow>
              (let w3 = fclose f (fwrite model_path (take (nat model_len) buf) w2) in
               case call_SetDMatrix E handle ''test'' dtest w3 of (ret, w4) \<Rightarrow>
                 if ret \<noteq> 0
                 then ((-1, None), set_engine_error E ''XLearnSetDMatrix(test) failed''
                                     (sys_remove model_path w4))
                 else predict_run E handle model_path w4)))"

subsection \<open>The public operations as one step function\<close>

datatype 'f api_call =
    Create "string option" nat
  | Set_str nat "string option" "string option"
  | Set_int nat "string option" int
  | Set_float nat "string option" 'f
  | Set_bool nat "string option" int
  | Build_dense "'f carray option" int int "'f carray option" "int carray option" nat
  | Build_csr "'f carray option" int "int carray option" "int carray option" int int
      "'f carray option" "int carray option" nat
  | Fit nat nat nat nat nat
  | Predict nat "bytes option" int nat nat nat

fun do_call :: "('e, 'f) engine_api \<Rightarrow> 'f float_ops \<Rightarrow> 'f api_call \<Rightarrow> ('e, 'f) world \<Rightarrow> ('e, 'f) ret" where
  "do_call E ops (Create model_type out) w = wl_xl_create E model_type out w"
| "do_call E ops (Set_str h k v) w = wl_xl_set_str E h k v w"
| "do_call E ops (Set_int h k v) w = wl_xl_set_int E h k v w"
| "do_call E ops (Set_float h k v) w = wl_xl_set_float E h k v w"
| "do_call E ops (Set_bool h k v) w = wl_xl_set_bool E h k v w"
| "do_call E ops (Build_dense data nrow ncol label field_map out) w =
     wl_xl_create_dmatrix_dense ops data nrow ncol label field_map out w"
| "do_call E ops (Build_csr vs nnz cs rp nrow ncol label field_map out) w =
     wl_xl_create_dmatrix_csr ops vs nnz cs rp nrow ncol label field_map out w"
| "do_call E ops (Fit h dtrain dvalid out_buf out_len) w = wl_xl_fit E h dtrain dvalid out_buf out_len w"
| "do_call E ops (Predict h buf len dtest out_preds out_len) w =
     wl_xl_predict E h buf len dtest out_preds out_len w"

text \<open>A sequence of calls by one caller, each on the state the previous one left.\<close>

fun run :: "('e, 'f) engine_api \<Rightarrow> 'f float_ops \<Rightarrow> 'f api_call list \<Rightarrow> ('e, 'f) world \<Rightarrow> ('e, 'f) world" where
  "run E ops [] w = w"
| "run E ops (c # cs) w = run E ops cs (snd (do_call E ops c w))"

text \<open>
  A call misses a required argument when a required pointer is null or a dimension
  (\<open>nrow\<close>, \<open>ncol\<close>, \<open>model_len\<close>) is not positive. \<open>label\<close>, \<open>field_map\<close> and \<open>dvalid\<close>
  are optional.
\<close>

fun missing_required :: "'f api_call \<Rightarrow> bool" where
  "missing_required (Create model_type out) = (is_null model_type \<or> out = 0)"
| "missing_required (Set_str h k v) = (h = 0 \<or> is_null k \<or> is_null v)"
| "missing_required (Set_int h k v) = (h = 0 \<or> is_null k)"
| "missing_required (Set_float h k v) = (h = 0 \<or> is_null k)"
| "missing_required (Set_bool h k v) = (h = 0 \<or> is_null k)"
| "missing_required (Build_dense data nrow ncol label field_map out) =
     (is_null data \<or> nrow \<le> 0 \<or> ncol \<le> 0 \<or> out = 0)"
| "missing_required (Build_csr vs nnz cs rp nrow ncol label field_map out) =
     (is_null vs \<or> is_null cs \<or> is_null rp \<or> nrow \<le> 0 \<or> ncol \<le> 0 \<or> out = 0)"
| "missing_required (Fit h dtrain dvalid out_buf out_len) =
     (h = 0 \<or> dtrain = 0 \<or> out_buf = 0 \<or> out_len = 0)"
| "missing_required (Predict h buf len dtest out_preds out_len) =
     (h = 0 \<or> is_null buf \<or> len \<le> 0 \<or> dtest = 0 \<or> out_preds = 0 \<or> out_len = 0)"

subsection \<open>Sample inputs\<close>

text \<open>
  A process state and an engine on which the model can be run. The engine accepts every
  call, trains into the file it is given, prints a line, and predicts one score.
\<close>

definition world0 :: "(unit, fval) world" where
  "world0 = \<lparr> last_error = [], saved_stdout_fd = -1, fit_counter = 0,
              fdtab = [Some Console, Some Console, Some Console, None, None, None],
              files = (\<lambda>p. None), heap = [], mem = 64, engine = (), calls = [],
              staged = [], console = [] \<rparr>"

definition sample_engine :: "(unit, fval) engine_api" where
  "sample_engine = \<lparr>
     XLearnCreate = (\<lambda>model_type e. ((0, 7), e)),
     XLearnGetLastError = (\<lambda>e. None),
     XLearnSetStr = (\<lambda>h k v e. (0, e)),
     XLearnSetInt = (\<lambda>h k v e. (0, e)),
     XLearnSetFloat = (\<lambda>h k v e. (0, e)),
     XLearnSetBool = (\<lambda>h k v e. (0, e)),
     XLearnSetDMatrix = (\<lambda>h role d e. (0, e)),
     XLearnFit = (\<lambda>h path e fs. ((0, [''Epoch 1'']), e, fs(path \<mapsto> ''model''))),
     XLearnPredictForMat = (\<lambda>h path e fs. ((0, [Fin 1], [''Predict'']), e, fs)) \<rparr>"

text \<open>The dense array \<open>[[1, 0, 2], [0, 0, 0]]\<close> with labels \<open>[1, 0]\<close>, and its CSR form.\<close>

definition sample_data :: "fval carray" where
  "sample_data k = [Fin 1, Fin 0, Fin 2, Fin 0, Fin 0, Fin 0] ! nat k"

definition sample_label :: "fval carray" where
  "sample_label k = [Fin 1, Fin 0] ! nat k"

text \<open>A CSR matrix of one row with a stored zero: values \<open>[3, 0]\<close> in columns 0 and 2.\<close>

definition sample_values :: "fval carray" where
  "sample_values k = [Fin 3, Fin 0] ! nat k"

definition sample_cols :: "int carray" where
  "sample_cols k = [0, 2] ! nat k"

definition sample_row_ptr :: "int carray" where
  "sample_row_ptr k = [0, 2] ! nat k"

text \<open>A dense array of one entry, NaN.\<close>

definition nan_data :: "fval carray" where
  "nan_data k = NaN"

text \<open>
  An engine whose state is the list of the calls it has received, and a process state
  for it: what the adapter passes to the engine can be read off the engine's own state.
\<close>

definition recording_engine :: "(fval engine_call list, fval) engine_api" where
  "recording_engine = \<lparr>
     XLearnCreate = (\<lambda>model_type e. ((0, 7), e @ [Call_Create model_type])),
     XLearnGetLastError = (\<lambda>e. None),
     XLearnSetStr = (\<lambda>h k v e. (0, e @ [Call_SetStr h k v])),
     XLearnSetInt = (\<lambda>h k v e. (0, e @ [Call_SetInt h k v])),
     XLearnSetFloat = (\<lambda>h k v e. (0, e @ [Call_SetFloat h k v])),
     XLearnSetBool = (\<lambda>h k v e. (0, e @ [Call_SetBool h k v])),
     XLearnSetDMatrix = (\<lambda>h role d e. (0, e @ [Call_SetDMatrix h role d])),
     XLearnFit = (\<lambda>h path e fs. ((0, []), e @ [Call_Fit h path], fs(path \<mapsto> ''model''))),
     XLearnPredictForMat = (\<lambda>h path e fs. ((0, [Fin 1], []), e @ [Call_PredictForMat h path], fs)) \<rparr>"

definition world1 :: "(fval engine_call list, fval) world" where
  "world1 = \<lparr> last_error = [], saved_stdout_fd = -1, fit_counter = 0,
              fdtab = [Some Console, Some Console, Some Console, None, None, None],
              files = (\<lambda>p. None), heap = [], mem = 64, engine = [], calls = [],
              staged = [], console = [] \<rparr>"

text \<open>
  Two process states short of descriptors: one with a single free descriptor, one in
  which descriptors 0 and 1 are closed.
\<close>

definition world_one_free :: "(unit, fval) world" where
  "world_one_free = \<lparr> last_error = [], saved_stdout_fd = -1, fit_counter = 0,
              fdtab = [Some Console, Some Console, Some Console, None],
              files = (\<lambda>p. None), heap = [], mem = 64, engine = (), calls = [],
              staged = [], console = [] \<rparr>"

definition world_std_closed :: "(unit, fval) world" where
  "world_std_closed = \<lparr> last_error = [], saved_stdout_fd = -1, fit_counter = 0,
              fdtab = [None, None, Some Console, None],
              files = (\<lambda>p. None), heap = [], mem = 64, engine = (), calls = [],
              staged = [], console = [] \<rparr>"

section \<open>Properties\<close>

subsection \<open>The two construction loops\<close>

lemma dense_entries_step:
  "j < ncol \<Longrightarrow> dense_entries ops data ncol i j =
     (if feq ops (data (i * ncol + j)) (fzero ops) then dense_entries ops data ncol i (j + 1)
      else (j, data (i * ncol + j)) # dense_entries ops data ncol i (j + 1))"
  by (simp add: dense_entries_def upto_rec1 [of j "ncol - 1"])

lemma dense_entries_stop: "\<not> j < ncol \<Longrightarrow> dense_entries ops data ncol i j = []"
  by (simp add: dense_entries_def)

lemma dense_cols_eq:
  "dense_cols ops data ncol field_map i j nrm st =
     add_entries ops (nat i) field_map (dense_entries ops data ncol i j) nrm st"
proof (induction ops data ncol field_map i j nrm st rule: dense_cols.induct)
  case (1 ops data ncol field_map i j nrm st)
  show ?case
  proof (cases "j < ncol")
    case False
    then show ?thesis by (subst dense_cols.simps) (simp add: dense_entries_stop)
  next
    case True
    note lt = this
    show ?thesis
    proof (cases "feq ops (data (i * ncol + j)) (fzero ops)")
      case True
      with lt "1.IH"(1) show ?thesis
        by (subst dense_cols.simps) (simp add: dense_entries_step Let_def)
    next
      case False
      with lt "1.IH"(2) show ?thesis
        by (subst dense_cols.simps) (auto simp add: dense_entries_step Let_def split: prod.splits option.splits)
    qed
  qed
qed

lemma csr_entries_eq:
  "csr_entries ops values col_indices field_map i j end_j nrm st =
     add_entries ops (nat i) field_map (csr_row_entries values col_indices j end_j) nrm st"
proof (induction ops "values" col_indices field_map i j end_j nrm st rule: csr_entries.induct)
  case (1 ops "values" col_indices field_map i j end_j nrm st)
  show ?case
  proof (cases "j < end_j")
    case False
    then show ?thesis by (subst csr_entries.simps) (simp add: csr_row_entries_def)
  next
    case True
    with "1.IH" show ?thesis
      by (subst csr_entries.simps)
         (auto simp add: csr_row_entries_def Let_def upto_rec1 [of j "end_j - 1"] split: prod.splits option.splits)
  qed
qed

lemma dense_rows_eq:
  "0 \<le> i \<Longrightarrow> dense_rows ops data nrow ncol label field_map i st =
     build_rows ops field_map (nat i) (dense_row_list ops data nrow ncol label i) st"
proof (induction ops data nrow ncol label field_map i st rule: dense_rows.induct)
  case (1 ops data nrow ncol label field_map i st)
  show ?case
  proof (cases "i < nrow")
    case False
    then show ?thesis by (subst dense_rows.simps) (simp add: dense_row_list_def)
  next
    case True
    have l: "dense_row_list ops data nrow ncol label i =
        (map_option (\<lambda>l. l i) label, dense_entries ops data ncol i 0) #
        dense_row_list ops data nrow ncol label (i + 1)"
      using True by (simp add: dense_row_list_def upto_rec1 [of i "nrow - 1"])
    have n: "nat (i + 1) = Suc (nat i)" using "1.prems" by simp
    show ?thesis
      using True "1.IH" "1.prems"
      apply (subst dense_rows.simps)
      apply (simp add: l n dense_cols_eq Let_def split: prod.splits option.splits)
      apply (auto split: option.splits)
      apply (metis prod.collapse)
      done
  qed
qed

lemma csr_rows_eq:
  "0 \<le> i \<Longrightarrow> csr_rows ops values col_indices row_ptr nrow label field_map i st =
     build_rows ops field_map (nat i) (csr_row_list values col_indices row_ptr nrow label i) st"
proof (induction ops "values" col_indices row_ptr nrow label field_map i st rule: csr_rows.induct)
  case (1 ops "values" col_indices row_ptr nrow label field_map i st)
  show ?case
  proof (cases "i < nrow")
    case False
    then show ?thesis by (subst csr_rows.simps) (simp add: csr_row_list_def)
  next
    case True
    have l: "csr_row_list values col_indices row_ptr nrow label i =
        (map_option (\<lambda>l. l i) label,
         csr_row_entries values col_indices (row_ptr i) (row_ptr (i + 1))) #
        csr_row_list values col_indices row_ptr nrow label (i + 1)"
      using True by (simp add: csr_row_list_def upto_rec1 [of i "nrow - 1"])
    have n: "nat (i + 1) = Suc (nat i)" using "1.prems" by simp
    show ?thesis
      using True "1.IH" "1.prems"
      apply (subst csr_rows.simps)
      apply (simp add: l n csr_entries_eq Let_def split: prod.splits option.splits)
      apply (auto split: option.splits)
      apply (metis prod.collapse)
      done
  qed
qed

lemma add_entries_ok:
  "add_entries ops i field_map es nrm (m, a) = (None, nrm1, m1, a1) \<Longrightarrow> i < length (row m) \<Longrightarrow>
     row m1 = (row m)[i := row m ! i @ map (node_of field_map) es] \<and>
     nrm1 = sum_sq ops nrm (map snd es) \<and>
     Y m1 = Y m \<and> norm_dm m1 = norm_dm m \<and> has_label m1 = has_label m"
proof (induction es arbitrary: nrm m a)
  case Nil
  then show ?case by (simp add: sum_sq_def)
next
  case (Cons cv es)
  from Cons.prems(1) obtain m2 a2 where
    n: "AddNode i (index_t (fst cv)) (snd cv) (field_of field_map (fst cv)) (m, a) = (None, m2, a2)"
    and r: "add_entries ops i field_map es (fadd ops nrm (fmul ops (snd cv) (snd cv))) (m2, a2) = (None, nrm1, m1, a1)"
    by (auto split: prod.splits option.splits)
  from n have m2: "m2 = m\<lparr> row := (row m)[i := row m ! i @ [node_of field_map cv]] \<rparr>"
    by (auto simp add: AddNode_def node_of_def split: if_splits)
  have len: "i < length (row m2)" using Cons.prems(2) by (simp add: m2)
  from Cons.IH [OF r len] show ?case
    using Cons.prems(2) by (simp add: m2 sum_sq_def)
qed

lemma build_rows_ok:
  "build_rows ops field_map i rs (m, a) = (None, m1, a1) \<Longrightarrow>
   length (row m) = i \<Longrightarrow> length (Y m) = i \<Longrightarrow> length (norm_dm m) = i \<Longrightarrow>
     row m1 = row m @ map (built_row field_map) rs \<and>
     norm_dm m1 = norm_dm m @ map (built_norm ops) rs \<and>
     Y m1 = Y m @ map (built_label ops) rs \<and>
     has_label m1 = has_label m"
proof (induction rs arbitrary: i m a)
  case Nil
  then show ?case by simp
next
  case (Cons r rs)
  from Cons.prems(1) have a0: "a \<noteq> 0"
    by (auto simp add: AddRow_def split: if_splits)
  define m2 where "m2 = m\<lparr> row := row m @ [[]], Y := Y m @ [fzero ops], norm_dm := norm_dm m @ [fone ops] \<rparr>"
  define m3 where "m3 = m2\<lparr> Y := (Y m2)[i := built_label ops r] \<rparr>"
  have ar: "AddRow ops (m, a) = (None, m2, a - 1)"
    using a0 by (simp add: AddRow_def m2_def)
  have st2: "(case fst r of Some l \<Rightarrow> set_Y i l (m2, a - 1) | None \<Rightarrow> (m2, a - 1)) = (m3, a - 1)"
    using Cons.prems(3) [symmetric]
    by (cases "fst r") (simp_all add: set_Y_def m3_def m2_def built_label_def)
  from Cons.prems(1) ar st2 obtain nrm m4 a4 where
    e: "add_entries ops i field_map (snd r) (fzero ops) (m3, a - 1) = (None, nrm, m4, a4)"
    and rest: "build_rows ops field_map (Suc i) rs (set_norm i (norm_scalar ops nrm) (m4, a4)) = (None, m1, a1)"
    by (auto simp add: Let_def split: prod.splits option.splits)
  have li: "i < length (row m3)" using Cons.prems(2) by (simp add: m3_def m2_def)
  note E = add_entries_ok [OF e li]
  define m5 where "m5 = m4\<lparr> norm_dm := (norm_dm m4)[i := norm_scalar ops nrm] \<rparr>"
  have rest': "build_rows ops field_map (Suc i) rs (m5, a4) = (None, m1, a1)"
    using rest by (simp add: set_norm_def m5_def)
  have r5: "row m5 = row m @ [built_row field_map r]"
    using E Cons.prems(2) [symmetric] by (simp add: m5_def m3_def m2_def built_row_def)
  have n5: "norm_dm m5 = norm_dm m @ [built_norm ops r]"
    using E Cons.prems(4) [symmetric] by (simp add: m5_def m3_def m2_def built_norm_def)
  have y5: "Y m5 = Y m @ [built_label ops r]"
    using E Cons.prems(3) [symmetric] by (simp add: m5_def m3_def m2_def)
  have h5: "has_label m5 = has_label m"
    using E by (simp add: m5_def m3_def m2_def)
  have "length (row m5) = Suc i" "length (Y m5) = Suc i" "length (norm_dm m5) = Suc i"
    using Cons.prems(2-4) by (simp_all add: r5 n5 y5)
  from Cons.IH [OF rest' this] show ?case
    by (simp add: r5 n5 y5 h5)
qed

lemma nth_concat_block:
  "map ((!) (A @ B @ C)) [length A..<length A + length B] = B"
  by (rule nth_equalityI) (simp_all add: nth_append)

lemma concat_row_block:
  assumes "i < length xss"
  shows "map ((!) (concat xss)) [length (concat (take i xss))..<length (concat (take (Suc i) xss))] = xss ! i"
proof -
  have t: "take (Suc i) xss = take i xss @ [xss ! i]"
    using assms by (simp add: take_Suc_conv_app_nth)
  have c: "concat xss = concat (take i xss) @ xss ! i @ concat (drop (Suc i) xss)"
    using assms by (metis append_take_drop_id concat.simps(2) concat_append Cons_nth_drop_Suc)
  have "map ((!) (concat (take i xss) @ xss ! i @ concat (drop (Suc i) xss)))
          [length (concat (take i xss))..<length (concat (take i xss)) + length (xss ! i)] = xss ! i"
    by (rule nth_concat_block)
  then show ?thesis by (simp add: t c [symmetric])
qed

lemma upto_as_upt: "[int a..int b - 1] = map int [a..<b]"
proof (induction b)
  case 0
  then show ?case by simp
next
  case (Suc b)
  show ?case
  proof (cases "a \<le> b")
    case True
    then have "[int a..int (Suc b) - 1] = [int a..int b - 1] @ [int b]"
      using upto_rec2 [of "int a" "int b"] by simp
    with Suc True show ?thesis by simp
  next
    case False
    then show ?thesis by simp
  qed
qed

lemma sparse_row_entries:
  assumes "0 \<le> i" "i < nrow"
  shows "csr_row_entries (csr_values_of ops data nrow ncol) (csr_col_indices_of ops data nrow ncol)
           (csr_row_ptr_of ops data nrow ncol i) (csr_row_ptr_of ops data nrow ncol (i + 1))
         = dense_entries ops data ncol i 0"
proof -
  define R where "R = sparse_rows ops data nrow ncol"
  have len: "length R = nat nrow" by (simp add: R_def sparse_rows_def)
  have ni: "nat i < length R" using assms by (simp add: len)
  have Ri: "R ! nat i = dense_entries ops data ncol i 0"
    using assms by (simp add: R_def sparse_rows_def nth_upto)
  have s: "nat (i + 1) = Suc (nat i)" using assms by simp
  have "csr_row_entries (csr_values_of ops data nrow ncol) (csr_col_indices_of ops data nrow ncol)
           (csr_row_ptr_of ops data nrow ncol i) (csr_row_ptr_of ops data nrow ncol (i + 1))
        = map (\<lambda>k. concat R ! nat k)
            [int (length (concat (take (nat i) R)))..int (length (concat (take (Suc (nat i)) R))) - 1]"
    by (simp add: csr_row_entries_def csr_values_of_def csr_col_indices_of_def csr_row_ptr_of_def
          R_def [symmetric] s)
  also have "\<dots> = map ((!) (concat R))
       [length (concat (take (nat i) R))..<length (concat (take (Suc (nat i)) R))]"
    by (simp add: upto_as_upt comp_def)
  also have "\<dots> = R ! nat i" by (rule concat_row_block [OF ni])
  finally show ?thesis by (simp add: Ri)
qed

lemma sparse_row_list:
  "csr_row_list (csr_values_of ops data nrow ncol) (csr_col_indices_of ops data nrow ncol)
     (csr_row_ptr_of ops data nrow ncol) nrow label 0 = dense_row_list ops data nrow ncol label 0"
  unfolding csr_row_list_def dense_row_list_def
  by (rule map_cong [OF refl]) (simp add: sparse_row_entries)

lemma build_rows_new:
  assumes "build_rows ops field_map 0 rs (new_DMatrix\<lparr> has_label := b \<rparr>, a) = (None, m, a1)"
  shows "row m = map (built_row field_map) rs \<and> norm_dm m = map (built_norm ops) rs \<and>
         Y m = map (built_label ops) rs \<and> has_label m = b"
  using build_rows_ok [OF assms] by (simp add: new_DMatrix_def)

lemma finish_build_ok:
  assumes "fst (finish_build r w) = (0, Some (Out_matrix p))"
  shows "\<exists>m a. r = (None, m, a) \<and> heap (snd (finish_build r w)) ! (p - 1) = Some m"
proof -
  obtain e m a where r: "r = (e, m, a)" by (cases r) auto
  from assms r have e: "e = None" and p: "p = length (heap w) + 1"
    by (auto simp add: finish_build_def split: option.splits)
  have "heap (snd (finish_build r w)) ! (p - 1) = Some m"
    by (simp add: r e p finish_build_def)
  with r e show ?thesis by simp
qed

lemma dense_success:
  assumes "fst (wl_xl_create_dmatrix_dense ops data nrow ncol label field_map out w) =
             (0, Some (Out_matrix p))"
  shows "\<exists>d m. data = Some d \<and>
           heap (snd (wl_xl_create_dmatrix_dense ops data nrow ncol label field_map out w)) ! (p - 1) = Some m \<and>
           row m = map (built_row field_map) (dense_row_list ops d nrow ncol label 0) \<and>
           norm_dm m = map (built_norm ops) (dense_row_list ops d nrow ncol label 0) \<and>
           Y m = map (built_label ops) (dense_row_list ops d nrow ncol label 0) \<and>
           has_label m = (\<not> is_null label)"
proof -
  from assms obtain d where d: "data = Some d"
    by (cases data) (auto simp add: wl_xl_create_dmatrix_dense_def Let_def)
  define r where "r = dense_rows ops d nrow ncol label field_map 0
                        (new_DMatrix\<lparr> has_label := \<not> is_null label \<rparr>, mem (clear_error w) - 1)"
  from assms d have eq: "wl_xl_create_dmatrix_dense ops data nrow ncol label field_map out w =
      finish_build r (clear_error w)"
    by (auto simp add: wl_xl_create_dmatrix_dense_def Let_def r_def split: if_splits)
  from assms eq finish_build_ok [of r "clear_error w" p] obtain m a where
    r: "r = (None, m, a)" and h: "heap (snd (finish_build r (clear_error w))) ! (p - 1) = Some m"
    by auto
  from r have "build_rows ops field_map 0 (dense_row_list ops d nrow ncol label 0)
                 (new_DMatrix\<lparr> has_label := \<not> is_null label \<rparr>, mem (clear_error w) - 1) = (None, m, a)"
    using dense_rows_eq [of 0 ops d nrow ncol label field_map] by (simp add: r_def)
  from build_rows_new [OF this] d h eq show ?thesis by simp
qed

lemma csr_success:
  assumes "fst (wl_xl_create_dmatrix_csr ops values nnz col_indices row_ptr nrow ncol label field_map out w) =
             (0, Some (Out_matrix p))"
  shows "\<exists>vs cs rp m. values = Some vs \<and> col_indices = Some cs \<and> row_ptr = Some rp \<and>
           heap (snd (wl_xl_create_dmatrix_csr ops values nnz col_indices row_ptr nrow ncol label
                        field_map out w)) ! (p - 1) = Some m \<and>
           row m = map (built_row field_map) (csr_row_list vs cs rp nrow label 0) \<and>
           norm_dm m = map (built_norm ops) (csr_row_list vs cs rp nrow label 0) \<and>
           Y m = map (built_label ops) (csr_row_list vs cs rp nrow label 0) \<and>
           has_label m = (\<not> is_null label)"
proof -
  from assms obtain vs cs rp where
    d: "values = Some vs" "col_indices = Some cs" "row_ptr = Some rp"
    by (cases "values"; cases col_indices; cases row_ptr)
       (auto simp add: wl_xl_create_dmatrix_csr_def Let_def)
  define r where "r = csr_rows ops vs cs rp nrow label field_map 0
                        (new_DMatrix\<lparr> has_label := \<not> is_null label \<rparr>, mem (clear_error w) - 1)"
  from assms d have eq: "wl_xl_create_dmatrix_csr ops values nnz col_indices row_ptr nrow ncol label
      field_map out w = finish_build r (clear_error w)"
    by (auto simp add: wl_xl_create_dmatrix_csr_def Let_def r_def split: if_splits)
  from assms eq finish_build_ok [of r "clear_error w" p] obtain m a where
    r: "r = (None, m, a)" and h: "heap (snd (finish_build r (clear_error w))) ! (p - 1) = Some m"
    by auto
  from r have "build_rows ops field_map 0 (csr_row_list vs cs rp nrow label 0)
                 (new_DMatrix\<lparr> has_label := \<not> is_null label \<rparr>, mem (clear_error w) - 1) = (None, m, a)"
    using csr_rows_eq [of 0 ops vs cs rp nrow label field_map] by (simp add: r_def)
  from build_rows_new [OF this] d h eq show ?thesis by simp
qed

lemma length_dense_row_list: "length (dense_row_list ops data nrow ncol label 0) = nat nrow"
  by (simp add: dense_row_list_def)

lemma length_csr_row_list: "length (csr_row_list vs cs rp nrow label 0) = nat nrow"
  by (simp add: csr_row_list_def)

lemma built_norm_row:
  "built_norm ops r = norm_scalar ops (sum_sq ops (fzero ops) (map feat_val (built_row field_map r)))"
  by (simp add: built_norm_def built_row_def node_of_def comp_def)

subsection \<open>Decimal rendering and the process primitives\<close>

lemmas sys_defs = sys_dup_def sys_open_def sys_dup2_def sys_close_def sys_remove_def fd_open_def
  fopen_rb_def fopen_wb_def fclose_def fwrite_def file_bytes_def is_null_def
  suppress_stdout_def restore_stdout_def emit_def

lemma dec_int_small: "dec_int 0 = ''0''" "dec_int 1 = ''1''" "dec_int 2 = ''2''"
  by (simp_all add: dec_int_def dec_nat.simps [of 0] dec_nat.simps [of 1] dec_nat.simps [of 2]
        dec_nat.simps [of "Suc 0"] digit_char_def)

lemma digit_char_inj: "d < 10 \<Longrightarrow> e < 10 \<Longrightarrow> digit_char d = digit_char e \<Longrightarrow> d = e"
proof -
  assume a: "d < 10" "e < 10" "digit_char d = digit_char e"
  have "distinct ''0123456789''" by simp
  with a show ?thesis
    by (simp add: digit_char_def nth_eq_iff_index_eq)
qed

lemma digit_char_not_minus: "d < 10 \<Longrightarrow> digit_char d \<noteq> CHR ''-''"
proof -
  assume "d < 10"
  then have "digit_char d \<in> set ''0123456789''"
    unfolding digit_char_def by (intro nth_mem) simp
  then show ?thesis by auto
qed

lemma dec_nat_nonempty: "dec_nat n \<noteq> []"
  by (subst dec_nat.simps) simp

lemma dec_nat_hd: "hd (dec_nat n) \<noteq> CHR ''-''"
proof (induction n rule: dec_nat.induct)
  case (1 n)
  show ?case
  proof (cases "n < 10")
    case True
    then show ?thesis by (subst dec_nat.simps) (simp add: digit_char_not_minus)
  next
    case False
    with 1 show ?thesis by (subst dec_nat.simps) (simp add: dec_nat_nonempty)
  qed
qed

lemma dec_nat_inj: "dec_nat n = dec_nat m \<Longrightarrow> n = m"
proof (induction n arbitrary: m rule: dec_nat.induct)
  case (1 n)
  show ?case
  proof (cases "n < 10")
    case True
    note n = this
    show ?thesis
    proof (cases "m < 10")
      case True
      with n "1.prems" show ?thesis
        by (simp add: dec_nat.simps [of n] dec_nat.simps [of m] digit_char_inj)
    next
      case False
      with n "1.prems" dec_nat_nonempty [of "m div 10"] show ?thesis
        by (auto simp add: dec_nat.simps [of n] dec_nat.simps [of m])
    qed
  next
    case False
    note n = this
    show ?thesis
    proof (cases "m < 10")
      case True
      with n "1.prems" dec_nat_nonempty [of "n div 10"] show ?thesis
        by (auto simp add: dec_nat.simps [of n] dec_nat.simps [of m])
    next
      case False
      with n "1.prems" have e: "dec_nat (n div 10) = dec_nat (m div 10)"
        and d: "digit_char (n mod 10) = digit_char (m mod 10)"
        by (simp_all add: dec_nat.simps [of n] dec_nat.simps [of m])
      from "1.IH" [OF n e] have "n div 10 = m div 10" .
      moreover from d have "n mod 10 = m mod 10" by (simp add: digit_char_inj)
      ultimately show ?thesis by (metis div_mult_mod_eq)
    qed
  qed
qed

lemma dec_int_inj: "dec_int i = dec_int j \<Longrightarrow> i = j"
proof -
  assume a: "dec_int i = dec_int j"
  have h: "dec_nat n \<noteq> CHR ''-'' # s" for n s
    using dec_nat_hd [of n] by (cases "dec_nat n") (auto simp add: dec_nat_nonempty)
  show ?thesis
  proof (cases "i < 0"; cases "j < 0")
    assume "i < 0" "j < 0"
    with a have "nat (- i) = nat (- j)" by (simp add: dec_int_def dec_nat_inj)
    with \<open>i < 0\<close> \<open>j < 0\<close> show ?thesis by simp
  next
    assume "i < 0" "\<not> j < 0"
    with a h [of "nat j" "dec_nat (nat (- i))"] show ?thesis by (simp add: dec_int_def)
  next
    assume "\<not> i < 0" "j < 0"
    with a h [of "nat i" "dec_nat (nat (- j))"] show ?thesis by (simp add: dec_int_def)
  next
    assume "\<not> i < 0" "\<not> j < 0"
    with a have "nat i = nat j" by (simp add: dec_int_def dec_nat_inj)
    with \<open>\<not> i < 0\<close> \<open>\<not> j < 0\<close> show ?thesis by simp
  qed
qed

lemma dec_nat_length: "0 < k \<Longrightarrow> n < 10 ^ k \<Longrightarrow> length (dec_nat n) \<le> k"
proof (induction n arbitrary: k rule: dec_nat.induct)
  case (1 n)
  show ?case
  proof (cases "n < 10")
    case True
    with "1.prems" show ?thesis by (simp add: dec_nat.simps [of n])
  next
    case False
    with "1.prems" obtain k' where k: "k = Suc k'" by (cases k) auto
    have "0 < k'" using False "1.prems" k by (cases k') auto
    moreover have "n div 10 < 10 ^ k'" using "1.prems" k by (simp add: less_mult_imp_div_less mult.commute)
    ultimately have "length (dec_nat (n div 10)) \<le> k'" using "1.IH" [OF False] by simp
    with False k show ?thesis by (simp add: dec_nat.simps [of n])
  qed
qed

lemma dec_int_length: "- (2 ^ 31) \<le> c \<Longrightarrow> c < 2 ^ 31 \<Longrightarrow> length (dec_int c) \<le> 11"
proof -
  assume a: "- (2 ^ 31) \<le> c" "c < 2 ^ 31"
  have "nat \<bar>c\<bar> < 10 ^ 10" using a by simp
  then have "length (dec_nat (nat \<bar>c\<bar>)) \<le> 10" by (intro dec_nat_length) simp_all
  then show ?thesis by (auto simp add: dec_int_def abs_if split: if_splits)
qed

subsection \<open>The descriptor table\<close>

lemma lowest_free_Some: "lowest_free t = Some k \<Longrightarrow> k < length t \<and> t ! k = None"
proof (induction t arbitrary: k)
  case Nil
  then show ?case by simp
next
  case (Cons x t)
  show ?case
  proof (cases x)
    case None
    with Cons.prems show ?thesis by simp
  next
    case (Some s)
    with Cons.prems obtain k' where "lowest_free t = Some k'" "k = Suc k'" by auto
    with Cons.IH [of k'] show ?thesis by simp
  qed
qed

lemma lowest_free_exists: "k < length t \<Longrightarrow> t ! k = None \<Longrightarrow> lowest_free t \<noteq> None"
proof (induction t arbitrary: k)
  case Nil
  then show ?case by simp
next
  case (Cons x t)
  show ?case
  proof (cases x)
    case None
    then show ?thesis by simp
  next
    case (Some s)
    with Cons.prems obtain k' where "k = Suc k'" by (cases k) auto
    with Cons.prems Cons.IH [of k'] Some show ?thesis by simp
  qed
qed

lemma close_free_tab: "lowest_free t = Some k \<Longrightarrow> t[k := None] = t"
  using lowest_free_Some [of t k] by (simp add: list_update_same_conv)

lemma tab_roundtrip:
  assumes "1 < length t" and "a < length t" and "t ! a = None" and "b < length t"
    and "t[a := t ! 1] ! b = None" and "t ! 1 \<noteq> None"
  shows "t[a := t ! 1, b := Some DevNull, 1 := Some DevNull, b := None, 1 := t ! 1, a := None] = t"
proof (rule nth_equalityI)
  show "length (t[a := t ! 1, b := Some DevNull, 1 := Some DevNull, b := None, 1 := t ! 1, a := None])
          = length t" by simp
next
  fix i
  assume "i < length (t[a := t ! 1, b := Some DevNull, 1 := Some DevNull, b := None, 1 := t ! 1, a := None])"
  then have i: "i < length t" by simp
  have ba: "b \<noteq> a" using assms by auto
  have tb: "t ! b = None" using assms ba by simp
  show "t[a := t ! 1, b := Some DevNull, 1 := Some DevNull, b := None, 1 := t ! 1, a := None] ! i = t ! i"
    using i assms ba tb by (auto simp add: nth_list_update)
qed

text \<open>What \<open>suppress_stdout\<close> leaves, by the number of free descriptors.\<close>

lemma suppress_cases:
  assumes o: "fd_open 1 (fdtab w)"
  shows "(lowest_free (fdtab w) = None \<and> fdtab (suppress_stdout w) = fdtab w \<and>
            saved_stdout_fd (suppress_stdout w) = -1) \<or>
         (\<exists>a. lowest_free (fdtab w) = Some a \<and>
            lowest_free ((fdtab w)[a := fdtab w ! 1]) = None \<and>
            fdtab (suppress_stdout w) = (fdtab w)[a := fdtab w ! 1] \<and>
            saved_stdout_fd (suppress_stdout w) = int a) \<or>
         (\<exists>a b. lowest_free (fdtab w) = Some a \<and>
            lowest_free ((fdtab w)[a := fdtab w ! 1]) = Some b \<and>
            fdtab (suppress_stdout w) =
              (fdtab w)[a := fdtab w ! 1, b := Some DevNull, 1 := Some DevNull, b := None] \<and>
            saved_stdout_fd (suppress_stdout w) = int a)"
proof (cases "lowest_free (fdtab w)")
  case None
  with o show ?thesis
    by (simp add: suppress_stdout_def sys_dup_def sys_open_def sys_dup2_def sys_close_def fd_open_def)
next
  case (Some a)
  note a = this
  show ?thesis
  proof (cases "lowest_free ((fdtab w)[a := fdtab w ! 1])")
    case None
    with o a show ?thesis
      by (simp add: suppress_stdout_def sys_dup_def sys_open_def sys_dup2_def sys_close_def fd_open_def)
  next
    case (Some b)
    from lowest_free_Some [OF Some] have b: "b < length (fdtab w)"
      and fb: "(fdtab w)[a := fdtab w ! 1] ! b = None" by simp_all
    from lowest_free_Some [OF a] have a': "a < length (fdtab w)" "fdtab w ! a = None" by simp_all
    from o have n1: "fdtab w ! 1 \<noteq> None" "1 < length (fdtab w)"
      by (auto simp add: fd_open_def is_null_def split: option.splits)
    from fb a' n1 have b1: "b \<noteq> 1" by (auto simp add: nth_list_update split: if_splits)
    with o a Some b show ?thesis
      by (simp add: suppress_stdout_def sys_dup_def sys_open_def sys_dup2_def sys_close_def
            fd_open_def is_null_def)
  qed
qed

lemma restore_suppress:
  assumes o: "fd_open 1 (fdtab w)"
    and f: "fdtab w2 = fdtab (suppress_stdout w)"
    and s: "saved_stdout_fd w2 = saved_stdout_fd (suppress_stdout w)"
  shows "fdtab (restore_stdout w2) = fdtab w"
proof -
  from o have l1: "1 < length (fdtab w)" and n1: "fdtab w ! 1 \<noteq> None"
    by (auto simp add: fd_open_def is_null_def split: option.splits)
  from suppress_cases [OF o] consider
    (none) "fdtab (suppress_stdout w) = fdtab w" "saved_stdout_fd (suppress_stdout w) = -1"
  | (one) a where "lowest_free (fdtab w) = Some a"
      "fdtab (suppress_stdout w) = (fdtab w)[a := fdtab w ! 1]"
      "saved_stdout_fd (suppress_stdout w) = int a"
  | (two) a b where "lowest_free (fdtab w) = Some a"
      "lowest_free ((fdtab w)[a := fdtab w ! 1]) = Some b"
      "fdtab (suppress_stdout w) =
         (fdtab w)[a := fdtab w ! 1, b := Some DevNull, 1 := Some DevNull, b := None]"
      "saved_stdout_fd (suppress_stdout w) = int a"
    by blast
  then show ?thesis
  proof cases
    case none
    with f s show ?thesis by (simp add: restore_stdout_def)
  next
    case (one a)
    from lowest_free_Some [OF one(1)] have a: "a < length (fdtab w)" "fdtab w ! a = None" by simp_all
    with n1 have a1: "a \<noteq> 1" by auto
    have "(fdtab w)[a := fdtab w ! 1, 1 := fdtab w ! 1, a := None] = fdtab w"
      using a a1 l1 by (intro nth_equalityI) (auto simp add: nth_list_update)
    with one f s a a1 l1 n1 show ?thesis
      by (auto simp add: restore_stdout_def sys_dup2_def sys_close_def fd_open_def is_null_def
            split: option.splits)
  next
    case (two a b)
    from lowest_free_Some [OF two(1)] have a: "a < length (fdtab w)" "fdtab w ! a = None" by simp_all
    from lowest_free_Some [OF two(2)] have b: "b < length (fdtab w)"
      "(fdtab w)[a := fdtab w ! 1] ! b = None" by simp_all
    from a n1 have a1: "a \<noteq> 1" by auto
    from b a n1 have ba: "b \<noteq> a" by auto
    from b a1 l1 n1 have b1: "b \<noteq> 1" by (auto simp add: nth_list_update split: if_splits)
    note rt = tab_roundtrip [OF l1 a b n1]
    with two f s a a1 b ba b1 l1 n1 show ?thesis
      by (auto simp add: restore_stdout_def sys_dup2_def sys_close_def fd_open_def is_null_def
            split: option.splits)
  qed
qed

lemma suppress_devnull:
  assumes o: "fd_open 1 (fdtab w)"
    and two: "\<exists>a b. a \<noteq> b \<and> a < length (fdtab w) \<and> b < length (fdtab w) \<and>
                     fdtab w ! a = None \<and> fdtab w ! b = None"
  shows "1 < length (fdtab (suppress_stdout w)) \<and> fdtab (suppress_stdout w) ! 1 = Some DevNull"
proof -
  from o have l1: "1 < length (fdtab w)" and n1: "fdtab w ! 1 \<noteq> None"
    by (auto simp add: fd_open_def is_null_def split: option.splits)
  from two obtain x y where xy: "x \<noteq> y" "x < length (fdtab w)" "y < length (fdtab w)"
    "fdtab w ! x = None" "fdtab w ! y = None" by blast
  from lowest_free_exists [OF xy(2) xy(4)] obtain a where a: "lowest_free (fdtab w) = Some a"
    by auto
  from lowest_free_Some [OF a] have a': "a < length (fdtab w)" "fdtab w ! a = None" by simp_all
  have "\<exists>z. z < length ((fdtab w)[a := fdtab w ! 1]) \<and> (fdtab w)[a := fdtab w ! 1] ! z = None"
  proof (cases "x = a")
    case True
    with xy have "y < length ((fdtab w)[a := fdtab w ! 1]) \<and> (fdtab w)[a := fdtab w ! 1] ! y = None"
      by simp
    then show ?thesis ..
  next
    case False
    with xy have "x < length ((fdtab w)[a := fdtab w ! 1]) \<and> (fdtab w)[a := fdtab w ! 1] ! x = None"
      by simp
    then show ?thesis ..
  qed
  then obtain b where b: "lowest_free ((fdtab w)[a := fdtab w ! 1]) = Some b"
    using lowest_free_exists by fastforce
  from lowest_free_Some [OF b] have b': "b < length (fdtab w)"
    "(fdtab w)[a := fdtab w ! 1] ! b = None" by simp_all
  from b' a' l1 n1 have b1: "b \<noteq> 1" by (auto simp add: nth_list_update split: if_splits)
  from suppress_cases [OF o] a b have
    "fdtab (suppress_stdout w) =
       (fdtab w)[a := fdtab w ! 1, b := Some DevNull, 1 := Some DevNull, b := None]"
    by auto
  with l1 b1 show ?thesis by simp
qed

text \<open>What the steps between suppression and return leave of the table and the console.\<close>

lemma call_Fit_frame:
  "fdtab (snd (call_Fit E h p w)) = fdtab w"
  "saved_stdout_fd (snd (call_Fit E h p w)) = saved_stdout_fd w"
  "fdtab w ! 1 = Some DevNull \<Longrightarrow> console (snd (call_Fit E h p w)) = console w"
  by (simp_all add: call_Fit_def emit_def split: prod.splits)

lemma call_PredictForMat_frame:
  "fdtab (snd (call_PredictForMat E h p w)) = fdtab w"
  "saved_stdout_fd (snd (call_PredictForMat E h p w)) = saved_stdout_fd w"
  "fdtab w ! 1 = Some DevNull \<Longrightarrow> console (snd (call_PredictForMat E h p w)) = console w"
  by (simp_all add: call_PredictForMat_def emit_def split: prod.splits)

lemma sys_dup_console: "sys_dup fd w = (r, w1) \<Longrightarrow> console w1 = console w"
  by (auto simp add: sys_dup_def split: if_splits option.splits)

lemma sys_open_console: "sys_open s w = (r, w1) \<Longrightarrow> console w1 = console w"
  by (auto simp add: sys_open_def split: option.splits)

lemma sys_dup2_console: "console (sys_dup2 old new w) = console w"
  by (simp add: sys_dup2_def)

lemma sys_close_console: "console (sys_close fd w) = console w"
  by (simp add: sys_close_def)

lemma suppress_console: "console (suppress_stdout w) = console w"
proof -
  obtain saved w1 where d: "sys_dup 1 w = (saved, w1)" by (cases "sys_dup 1 w")
  obtain devnull w2 where p: "sys_open DevNull (w1\<lparr> saved_stdout_fd := saved \<rparr>) = (devnull, w2)"
    by (cases "sys_open DevNull (w1\<lparr> saved_stdout_fd := saved \<rparr>)")
  from sys_dup_console [OF d] sys_open_console [OF p] have "console w2 = console w" by simp
  with d p show ?thesis
    by (simp add: suppress_stdout_def sys_dup2_console sys_close_console)
qed

lemma restore_console: "console (restore_stdout w) = console w"
  by (simp add: restore_stdout_def sys_dup2_def sys_close_def)

lemma fit_read_model_frame:
  "fdtab (snd (fit_read_model p w)) = fdtab w"
  "console (snd (fit_read_model p w)) = console w"
  by (auto simp add: fit_read_model_def fopen_rb_def fclose_def sys_remove_def set_error_def
        Let_def close_free_tab split: option.splits)

lemma fit_train_fdtab:
  assumes "fd_open 1 (fdtab w)"
  shows "fdtab (snd (fit_train E h w)) = fdtab w"
proof -
  obtain p w1 where n: "next_path ''/tmp/wl_xl_model_'' w = (p, w1)" by (cases "next_path ''/tmp/wl_xl_model_'' w")
  then have w1: "fdtab w1 = fdtab w" by (auto simp add: next_path_def Let_def)
  obtain ret w2 where c: "call_Fit E h p (suppress_stdout w1) = (ret, w2)"
    by (cases "call_Fit E h p (suppress_stdout w1)")
  have o1: "fd_open 1 (fdtab w1)" using assms w1 by simp
  have "fdtab w2 = fdtab (suppress_stdout w1)" "saved_stdout_fd w2 = saved_stdout_fd (suppress_stdout w1)"
    using call_Fit_frame(1,2) [of E h p "suppress_stdout w1"] c by simp_all
  from restore_suppress [OF o1 this] have r: "fdtab (restore_stdout w2) = fdtab w" by (simp add: w1)
  show ?thesis
    using n c r
    by (simp add: fit_train_def Let_def fit_read_model_frame sys_remove_def set_engine_error_def
          set_error_def)
qed

lemma fit_train_console:
  assumes "fd_open 1 (fdtab w)"
    and "\<exists>a b. a \<noteq> b \<and> a < length (fdtab w) \<and> b < length (fdtab w) \<and>
                fdtab w ! a = None \<and> fdtab w ! b = None"
  shows "console (snd (fit_train E h w)) = console w"
proof -
  obtain p w1 where n: "next_path ''/tmp/wl_xl_model_'' w = (p, w1)" by (cases "next_path ''/tmp/wl_xl_model_'' w")
  then have w1: "fdtab w1 = fdtab w" "console w1 = console w" by (auto simp add: next_path_def Let_def)
  obtain ret w2 where c: "call_Fit E h p (suppress_stdout w1) = (ret, w2)"
    by (cases "call_Fit E h p (suppress_stdout w1)")
  from suppress_devnull [of w1] assms w1 have "fdtab (suppress_stdout w1) ! 1 = Some DevNull" by simp
  from call_Fit_frame(3) [OF this, of E h p] c have "console w2 = console w"
    by (simp add: suppress_console w1)
  then show ?thesis
    using n c
    by (simp add: fit_train_def Let_def fit_read_model_frame sys_remove_def set_engine_error_def
          set_error_def restore_console)
qed

lemma predict_run_fdtab:
  assumes "fd_open 1 (fdtab w)"
  shows "fdtab (snd (predict_run E h p w)) = fdtab w"
proof -
  obtain ret arr w1 where c: "call_PredictForMat E h p (suppress_stdout w) = ((ret, arr), w1)"
    by (cases "call_PredictForMat E h p (suppress_stdout w)") auto
  have "fdtab w1 = fdtab (suppress_stdout w)" "saved_stdout_fd w1 = saved_stdout_fd (suppress_stdout w)"
    using call_PredictForMat_frame(1,2) [of E h p "suppress_stdout w"] c by simp_all
  from restore_suppress [OF assms this] have r: "fdtab (restore_stdout w1) = fdtab w" .
  show ?thesis
    using c r
    by (simp add: predict_run_def Let_def sys_remove_def set_engine_error_def set_error_def)
qed

lemma predict_run_console:
  assumes "fd_open 1 (fdtab w)"
    and "\<exists>a b. a \<noteq> b \<and> a < length (fdtab w) \<and> b < length (fdtab w) \<and>
                fdtab w ! a = None \<and> fdtab w ! b = None"
  shows "console (snd (predict_run E h p w)) = console w"
proof -
  obtain ret arr w1 where c: "call_PredictForMat E h p (suppress_stdout w) = ((ret, arr), w1)"
    by (cases "call_PredictForMat E h p (suppress_stdout w)") auto
  from suppress_devnull [OF assms] have "fdtab (suppress_stdout w) ! 1 = Some DevNull" by simp
  from call_PredictForMat_frame(3) [OF this, of E h p] c have "console w1 = console w"
    by (simp add: suppress_console)
  then show ?thesis
    using c
    by (simp add: predict_run_def Let_def sys_remove_def set_engine_error_def set_error_def
          restore_console)
qed

lemma call_SetDMatrix_frame:
  "fdtab (snd (call_SetDMatrix E h role d w)) = fdtab w"
  "console (snd (call_SetDMatrix E h role d w)) = console w"
  by (simp_all add: call_SetDMatrix_def split: prod.splits)

text \<open>
  \<open>wl_xl_fit\<close> either returns before the staging path is made, or continues as
  \<open>fit_train\<close>; the steps before that touch only the error slot and the engine.
\<close>

lemma wl_xl_fit_cases:
  assumes d: "\<And>role d w1. P (snd (call_SetDMatrix E h role d w1)) = P w1"
    and e: "\<And>msg w1. P (w1\<lparr> last_error := msg \<rparr>) = P w1"
    and g: "\<And>cs w1. P (w1\<lparr> calls := cs \<rparr>) = P w1"
  shows "P (snd (wl_xl_fit E h dtrain dvalid ob ol w)) = P w \<or>
         (\<exists>w1. P w1 = P w \<and> wl_xl_fit E h dtrain dvalid ob ol w = fit_train E h w1)"
proof -
  let ?w = "clear_error w"
  have c: "P ?w = P w" by (simp add: clear_error_def e)
  show ?thesis
  proof (cases "h = 0 \<or> dtrain = 0 \<or> ob = 0 \<or> ol = 0")
    case True
    then show ?thesis by (simp add: wl_xl_fit_def Let_def set_error_def c e)
  next
    case False
    obtain ret w1 where s1: "call_SetDMatrix E h ''train'' dtrain ?w = (ret, w1)"
      by (cases "call_SetDMatrix E h ''train'' dtrain ?w")
    have f1: "P w1 = P w" using d [of "''train''" dtrain ?w] s1 c by simp
    obtain ret2 w2 where s2: "call_SetDMatrix E h ''validate'' dvalid w1 = (ret2, w2)"
      by (cases "call_SetDMatrix E h ''validate'' dvalid w1")
    have f2: "P w2 = P w" using d [of "''validate''" dvalid w1] s2 f1 by simp
    show ?thesis
      using False s1 s2 f1 f2
      by (auto simp add: wl_xl_fit_def Let_def set_engine_error_def set_error_def e g)
  qed
qed

lemma fopen_wb_frame:
  "fopen_wb p w1 = (Some f, w2) \<Longrightarrow>
     fdtab (fclose f (fwrite p c w2)) = fdtab w1 \<and> console (fclose f (fwrite p c w2)) = console w1"
  "fopen_wb p w1 = (None, w2) \<Longrightarrow> fdtab w2 = fdtab w1 \<and> console w2 = console w1"
  by (auto simp add: fopen_wb_def fclose_def fwrite_def close_free_tab split: if_splits option.splits)

lemma wl_xl_predict_frame:
  assumes o: "fd_open 1 (fdtab w)"
    and two: "Q \<longrightarrow> (\<exists>a b. a \<noteq> b \<and> a < length (fdtab w) \<and> b < length (fdtab w) \<and>
                     fdtab w ! a = None \<and> fdtab w ! b = None)"
  shows "fdtab (snd (wl_xl_predict E h model_buf model_len dtest op ol w)) = fdtab w \<and>
         (Q \<longrightarrow> console (snd (wl_xl_predict E h model_buf model_len dtest op ol w)) = console w)"
proof -
  let ?w = "clear_error w"
  have c: "fdtab ?w = fdtab w" "console ?w = console w" by (simp_all add: clear_error_def)
  show ?thesis
  proof (cases "model_buf = None \<or> h = 0 \<or> model_len \<le> 0 \<or> dtest = 0 \<or> op = 0 \<or> ol = 0")
    case True
    then show ?thesis
      by (auto simp add: wl_xl_predict_def Let_def set_error_def c split: option.splits)
  next
    case False
    then obtain buf where buf: "model_buf = Some buf" by auto
    obtain p w1 where n: "next_path ''/tmp/wl_xl_pred_'' ?w = (p, w1)"
      by (cases "next_path ''/tmp/wl_xl_pred_'' ?w")
    then have w1: "fdtab w1 = fdtab w" "console w1 = console w"
      using c by (auto simp add: next_path_def Let_def)
    obtain fo w2 where f: "fopen_wb p w1 = (fo, w2)" by (cases "fopen_wb p w1")
    show ?thesis
    proof (cases fo)
      case None
      with f fopen_wb_frame(2) [of p w1 w2] w1 False buf n show ?thesis
        by (simp add: wl_xl_predict_def Let_def set_error_def)
    next
      case (Some fd)
      let ?w3 = "fclose fd (fwrite p (take (nat model_len) buf) w2)"
      from f Some fopen_wb_frame(1) [of p w1 fd w2 "take (nat model_len) buf"] w1
      have w3: "fdtab ?w3 = fdtab w" "console ?w3 = console w" by simp_all
      obtain ret w4 where s: "call_SetDMatrix E h ''test'' dtest ?w3 = (ret, w4)"
        by (cases "call_SetDMatrix E h ''test'' dtest ?w3")
      with call_SetDMatrix_frame [of E h "''test''" dtest ?w3] w3
      have w4: "fdtab w4 = fdtab w" "console w4 = console w" by simp_all
      have o4: "fd_open 1 (fdtab w4)" using o w4 by simp
      have r: "fdtab (snd (predict_run E h p w4)) = fdtab w"
        using predict_run_fdtab [OF o4] w4 by simp
      have rc: "Q \<longrightarrow> console (snd (predict_run E h p w4)) = console w"
        using predict_run_console [OF o4, of E h p] two w4 by simp
      from False buf n f Some s w4 r rc show ?thesis
        by (simp add: wl_xl_predict_def Let_def set_engine_error_def set_error_def sys_remove_def)
    qed
  qed
qed

subsection \<open>Staging paths\<close>

lemma stage_name_full:
  assumes "- (2 ^ 31) \<le> c" and "c < 2 ^ 31"
  shows "snprintf_d 64 ''/tmp/wl_xl_model_'' c = ''/tmp/wl_xl_model_'' @ dec_int c"
    and "snprintf_d 64 ''/tmp/wl_xl_pred_'' c = ''/tmp/wl_xl_pred_'' @ dec_int c"
  using dec_int_length [OF assms] by (simp_all add: snprintf_d_def)

lemma stage_name_inj:
  assumes "- (2 ^ 31) \<le> c" "c < 2 ^ 31" "- (2 ^ 31) \<le> d" "d < 2 ^ 31"
    and "p = snprintf_d 64 ''/tmp/wl_xl_model_'' c \<or> p = snprintf_d 64 ''/tmp/wl_xl_pred_'' c"
    and "p = snprintf_d 64 ''/tmp/wl_xl_model_'' d \<or> p = snprintf_d 64 ''/tmp/wl_xl_pred_'' d"
  shows "c = d"
  using assms(5,6)
  unfolding stage_name_full [OF assms(1,2)] stage_name_full [OF assms(3,4)]
  by (auto dest: dec_int_inj)

lemma staging_frame:
  "staged (set_error m w) = staged w" "fit_counter (set_error m w) = fit_counter w"
  "staged (clear_error w) = staged w" "fit_counter (clear_error w) = fit_counter w"
  "staged (set_engine_error E m w) = staged w" "fit_counter (set_engine_error E m w) = fit_counter w"
  "staged (sys_remove p w) = staged w" "fit_counter (sys_remove p w) = fit_counter w"
  "staged (fclose f w) = staged w" "fit_counter (fclose f w) = fit_counter w"
  "staged (fwrite p c w) = staged w" "fit_counter (fwrite p c w) = fit_counter w"
  "staged (sys_dup2 a b w) = staged w" "fit_counter (sys_dup2 a b w) = fit_counter w"
  "staged (sys_close a w) = staged w" "fit_counter (sys_close a w) = fit_counter w"
  "staged (emit ls w) = staged w" "fit_counter (emit ls w) = fit_counter w"
  "staged (snd (sys_dup a w)) = staged w" "fit_counter (snd (sys_dup a w)) = fit_counter w"
  "staged (snd (sys_open s w)) = staged w" "fit_counter (snd (sys_open s w)) = fit_counter w"
  "staged (snd (fopen_rb p w)) = staged w" "fit_counter (snd (fopen_rb p w)) = fit_counter w"
  "staged (snd (fopen_wb p w)) = staged w" "fit_counter (snd (fopen_wb p w)) = fit_counter w"
  by (simp_all add: set_error_def clear_error_def set_engine_error_def sys_remove_def fclose_def
        fwrite_def sys_dup2_def sys_close_def emit_def sys_dup_def sys_open_def fopen_rb_def
        fopen_wb_def split: option.splits)

lemma staging_frame_calls:
  "staged (snd (call_Create E mt w)) = staged w" "fit_counter (snd (call_Create E mt w)) = fit_counter w"
  "staged (snd (call_SetStr E h k s w)) = staged w" "fit_counter (snd (call_SetStr E h k s w)) = fit_counter w"
  "staged (snd (call_SetInt E h k i w)) = staged w" "fit_counter (snd (call_SetInt E h k i w)) = fit_counter w"
  "staged (snd (call_SetFloat E h k x w)) = staged w" "fit_counter (snd (call_SetFloat E h k x w)) = fit_counter w"
  "staged (snd (call_SetBool E h k b w)) = staged w" "fit_counter (snd (call_SetBool E h k b w)) = fit_counter w"
  "staged (snd (call_SetDMatrix E h k d w)) = staged w" "fit_counter (snd (call_SetDMatrix E h k d w)) = fit_counter w"
  "staged (snd (call_Fit E h p w)) = staged w" "fit_counter (snd (call_Fit E h p w)) = fit_counter w"
  "staged (snd (call_PredictForMat E h p w)) = staged w"
  "fit_counter (snd (call_PredictForMat E h p w)) = fit_counter w"
  by (simp_all add: call_Create_def call_SetStr_def call_SetInt_def call_SetFloat_def
        call_SetBool_def call_SetDMatrix_def call_Fit_def call_PredictForMat_def emit_def
        split: prod.splits)

lemma call_Create_stagingD:
  "call_Create E mt w = (r, w1) \<Longrightarrow> staged w1 = staged w \<and> fit_counter w1 = fit_counter w"
  using staging_frame_calls(1,2) [of E mt w] by simp

lemma call_SetStr_stagingD:
  "call_SetStr E h k s w = (r, w1) \<Longrightarrow> staged w1 = staged w \<and> fit_counter w1 = fit_counter w"
  using staging_frame_calls(3,4) [of E h k s w] by simp

lemma call_SetInt_stagingD:
  "call_SetInt E h k i w = (r, w1) \<Longrightarrow> staged w1 = staged w \<and> fit_counter w1 = fit_counter w"
  using staging_frame_calls(5,6) [of E h k i w] by simp

lemma call_SetFloat_stagingD:
  "call_SetFloat E h k x w = (r, w1) \<Longrightarrow> staged w1 = staged w \<and> fit_counter w1 = fit_counter w"
  using staging_frame_calls(7,8) [of E h k x w] by simp

lemma call_SetBool_stagingD:
  "call_SetBool E h k b w = (r, w1) \<Longrightarrow> staged w1 = staged w \<and> fit_counter w1 = fit_counter w"
  using staging_frame_calls(9,10) [of E h k b w] by simp

lemma staging_frame_stdout:
  "staged (suppress_stdout w) = staged w" "fit_counter (suppress_stdout w) = fit_counter w"
  "staged (restore_stdout w) = staged w" "fit_counter (restore_stdout w) = fit_counter w"
proof -
  obtain saved w1 where d: "sys_dup 1 w = (saved, w1)" by (cases "sys_dup 1 w")
  obtain devnull w2 where p: "sys_open DevNull (w1\<lparr> saved_stdout_fd := saved \<rparr>) = (devnull, w2)"
    by (cases "sys_open DevNull (w1\<lparr> saved_stdout_fd := saved \<rparr>)")
  from staging_frame(19,20) [of 1 w] d have 1: "staged w1 = staged w" "fit_counter w1 = fit_counter w"
    by simp_all
  from staging_frame(21,22) [of DevNull "w1\<lparr> saved_stdout_fd := saved \<rparr>"] p 1
  have 2: "staged w2 = staged w" "fit_counter w2 = fit_counter w" by simp_all
  from d p 2 show "staged (suppress_stdout w) = staged w" "fit_counter (suppress_stdout w) = fit_counter w"
    by (simp_all add: suppress_stdout_def staging_frame)
  show "staged (restore_stdout w) = staged w" "fit_counter (restore_stdout w) = fit_counter w"
    by (simp_all add: restore_stdout_def staging_frame)
qed

lemma fit_read_model_staging:
  "staged (snd (fit_read_model p w)) = staged w" "fit_counter (snd (fit_read_model p w)) = fit_counter w"
proof -
  obtain fo w1 where f: "fopen_rb p w = (fo, w1)" by (cases "fopen_rb p w")
  with staging_frame(23,24) [of p w] have 1: "staged w1 = staged w" "fit_counter w1 = fit_counter w"
    by simp_all
  from f 1 show "staged (snd (fit_read_model p w)) = staged w"
    "fit_counter (snd (fit_read_model p w)) = fit_counter w"
    by (simp_all add: fit_read_model_def Let_def staging_frame split: option.splits)
qed

lemma fit_train_staging:
  "staged (snd (fit_train E h w)) = staged w @ [snprintf_d 64 ''/tmp/wl_xl_model_'' (fit_counter w)]"
  "fit_counter (snd (fit_train E h w)) = fit_counter w + 1"
proof -
  let ?p = "snprintf_d 64 ''/tmp/wl_xl_model_'' (fit_counter w)"
  let ?w1 = "w\<lparr> fit_counter := fit_counter w + 1, staged := staged w @ [?p] \<rparr>"
  obtain ret w2 where c: "call_Fit E h ?p (suppress_stdout ?w1) = (ret, w2)"
    by (cases "call_Fit E h ?p (suppress_stdout ?w1)")
  with staging_frame_calls(13,14) [of E h ?p "suppress_stdout ?w1"]
  have 2: "staged w2 = staged w @ [?p]" "fit_counter w2 = fit_counter w + 1"
    by (simp_all add: staging_frame_stdout)
  from c 2 show "staged (snd (fit_train E h w)) = staged w @ [?p]"
    "fit_counter (snd (fit_train E h w)) = fit_counter w + 1"
    by (simp_all add: fit_train_def next_path_def Let_def staging_frame staging_frame_stdout
          fit_read_model_staging)
qed

lemma predict_run_staging:
  "staged (snd (predict_run E h p w)) = staged w" "fit_counter (snd (predict_run E h p w)) = fit_counter w"
proof -
  obtain ret arr w1 where c: "call_PredictForMat E h p (suppress_stdout w) = ((ret, arr), w1)"
    by (cases "call_PredictForMat E h p (suppress_stdout w)") auto
  with staging_frame_calls(15,16) [of E h p "suppress_stdout w"]
  have 1: "staged w1 = staged w" "fit_counter w1 = fit_counter w"
    by (simp_all add: staging_frame_stdout)
  from c 1 show "staged (snd (predict_run E h p w)) = staged w"
    "fit_counter (snd (predict_run E h p w)) = fit_counter w"
    by (simp_all add: predict_run_def Let_def staging_frame staging_frame_stdout)
qed

lemma wl_xl_predict_staging_invalid:
  assumes "model_buf = None \<or> h = 0 \<or> model_len \<le> 0 \<or> dtest = 0 \<or> op = 0 \<or> ol = 0"
  shows "staged (snd (wl_xl_predict E h model_buf model_len dtest op ol w)) = staged w \<and>
         fit_counter (snd (wl_xl_predict E h model_buf model_len dtest op ol w)) = fit_counter w"
  using assms by (auto simp add: wl_xl_predict_def Let_def staging_frame split: option.splits)

lemma wl_xl_predict_staging_valid:
  assumes "\<not> (model_buf = None \<or> h = 0 \<or> model_len \<le> 0 \<or> dtest = 0 \<or> op = 0 \<or> ol = 0)"
  shows "staged (snd (wl_xl_predict E h model_buf model_len dtest op ol w)) =
           staged w @ [snprintf_d 64 ''/tmp/wl_xl_pred_'' (fit_counter w)] \<and>
         fit_counter (snd (wl_xl_predict E h model_buf model_len dtest op ol w)) = fit_counter w + 1"
proof -
  from assms obtain buf where buf: "model_buf = Some buf" by auto
  let ?p = "snprintf_d 64 ''/tmp/wl_xl_pred_'' (fit_counter w)"
  let ?w1 = "(clear_error w)\<lparr> fit_counter := fit_counter w + 1, staged := staged w @ [?p] \<rparr>"
  have n: "next_path ''/tmp/wl_xl_pred_'' (clear_error w) = (?p, ?w1)"
    by (simp add: next_path_def Let_def staging_frame)
  obtain fo w2 where f: "fopen_wb ?p ?w1 = (fo, w2)" by (cases "fopen_wb ?p ?w1")
  with staging_frame(25,26) [of ?p ?w1]
  have 2: "staged w2 = staged w @ [?p]" "fit_counter w2 = fit_counter w + 1" by simp_all
  show ?thesis
  proof (cases fo)
    case None
    with assms buf n f 2 show ?thesis
      by (simp add: wl_xl_predict_def Let_def staging_frame)
  next
    case (Some fd)
    let ?w3 = "fclose fd (fwrite ?p (take (nat model_len) buf) w2)"
    obtain ret w4 where s: "call_SetDMatrix E h ''test'' dtest ?w3 = (ret, w4)"
      by (cases "call_SetDMatrix E h ''test'' dtest ?w3")
    with staging_frame_calls(11,12) [of E h "''test''" dtest ?w3] 2
    have 4: "staged w4 = staged w @ [?p]" "fit_counter w4 = fit_counter w + 1"
      by (simp_all add: staging_frame)
    from assms buf n f Some s 4 show ?thesis
      by (simp add: wl_xl_predict_def Let_def staging_frame predict_run_staging)
  qed
qed

lemma wl_xl_predict_staging:
  "(staged (snd (wl_xl_predict E h model_buf model_len dtest op ol w)) = staged w \<and>
    fit_counter (snd (wl_xl_predict E h model_buf model_len dtest op ol w)) = fit_counter w) \<or>
   (staged (snd (wl_xl_predict E h model_buf model_len dtest op ol w)) =
      staged w @ [snprintf_d 64 ''/tmp/wl_xl_pred_'' (fit_counter w)] \<and>
    fit_counter (snd (wl_xl_predict E h model_buf model_len dtest op ol w)) = fit_counter w + 1)"
  using wl_xl_predict_staging_invalid [of model_buf h model_len dtest op ol E w]
    wl_xl_predict_staging_valid [of model_buf h model_len dtest op ol E w]
  by blast

lemma wl_xl_fit_staging_bound:
  assumes "h \<noteq> 0" "dtrain \<noteq> 0" "ob \<noteq> 0" "ol \<noteq> 0"
    and "fst (call_SetDMatrix E h ''train'' dtrain (clear_error w)) = 0"
  shows "staged (snd (wl_xl_fit E h dtrain 0 ob ol w)) =
           staged w @ [snprintf_d 64 ''/tmp/wl_xl_model_'' (fit_counter w)] \<and>
         fit_counter (snd (wl_xl_fit E h dtrain 0 ob ol w)) = fit_counter w + 1"
proof -
  obtain ret w1 where s: "call_SetDMatrix E h ''train'' dtrain (clear_error w) = (ret, w1)"
    by (cases "call_SetDMatrix E h ''train'' dtrain (clear_error w)")
  with staging_frame_calls(11,12) [of E h "''train''" dtrain "clear_error w"]
  have 1: "staged w1 = staged w" "fit_counter w1 = fit_counter w" by (simp_all add: staging_frame)
  from assms s have "wl_xl_fit E h dtrain 0 ob ol w = fit_train E h w1"
    by (simp add: wl_xl_fit_def Let_def)
  with fit_train_staging [of E h w1] 1 show ?thesis by simp
qed

lemma finish_build_staging:
  "staged (snd (finish_build r w)) = staged w" "fit_counter (snd (finish_build r w)) = fit_counter w"
  by (simp_all add: finish_build_def set_error_def split: prod.splits option.splits)

lemma do_call_staging:
  "(staged (snd (do_call E ops c w)) = staged w \<and>
    fit_counter (snd (do_call E ops c w)) = fit_counter w) \<or>
   ((staged (snd (do_call E ops c w)) =
       staged w @ [snprintf_d 64 ''/tmp/wl_xl_model_'' (fit_counter w)] \<or>
     staged (snd (do_call E ops c w)) =
       staged w @ [snprintf_d 64 ''/tmp/wl_xl_pred_'' (fit_counter w)]) \<and>
    fit_counter (snd (do_call E ops c w)) = fit_counter w + 1)"
proof (cases c)
  case (Create model_type out)
  then show ?thesis
    by (auto simp add: wl_xl_create_def Let_def staging_frame staging_frame_calls
          split: option.splits prod.splits dest!: call_Create_stagingD)
next
  case (Set_str h k v)
  then show ?thesis
    by (auto simp add: wl_xl_set_str_def staging_frame staging_frame_calls
          split: option.splits prod.splits dest!: call_SetStr_stagingD)
next
  case (Set_int h k v)
  then show ?thesis
    by (auto simp add: wl_xl_set_int_def staging_frame staging_frame_calls
          split: option.splits prod.splits dest!: call_SetInt_stagingD)
next
  case (Set_float h k v)
  then show ?thesis
    by (auto simp add: wl_xl_set_float_def staging_frame staging_frame_calls
          split: option.splits prod.splits dest!: call_SetFloat_stagingD)
next
  case (Set_bool h k v)
  then show ?thesis
    by (auto simp add: wl_xl_set_bool_def staging_frame staging_frame_calls
          split: option.splits prod.splits dest!: call_SetBool_stagingD)
next
  case (Build_dense data nrow ncol label field_map out)
  then show ?thesis
    by (simp add: wl_xl_create_dmatrix_dense_def Let_def staging_frame finish_build_staging
          split: option.splits)
next
  case (Build_csr vs nnz cs rp nrow ncol label field_map out)
  then show ?thesis
    by (simp add: wl_xl_create_dmatrix_csr_def Let_def staging_frame finish_build_staging
          split: option.splits)
next
  case (Fit h dtrain dvalid out_buf out_len)
  from wl_xl_fit_cases [where P = "\<lambda>w. (staged w, fit_counter w)" and E = E and h = h and w = w,
      of dtrain dvalid out_buf out_len]
  have "(staged (snd (wl_xl_fit E h dtrain dvalid out_buf out_len w)),
         fit_counter (snd (wl_xl_fit E h dtrain dvalid out_buf out_len w))) = (staged w, fit_counter w) \<or>
        (\<exists>w1. (staged w1, fit_counter w1) = (staged w, fit_counter w) \<and>
              wl_xl_fit E h dtrain dvalid out_buf out_len w = fit_train E h w1)"
    by (simp add: staging_frame_calls)
  then show ?thesis
  proof (elim disjE exE conjE)
    fix w1
    assume "(staged w1, fit_counter w1) = (staged w, fit_counter w)"
      and "wl_xl_fit E h dtrain dvalid out_buf out_len w = fit_train E h w1"
    with fit_train_staging [of E h w1] Fit show ?thesis by simp
  qed (simp add: Fit)
next
  case (Predict h buf len dtest out_preds out_len)
  with wl_xl_predict_staging [of E h buf len dtest out_preds out_len w] show ?thesis by auto
qed

lemma do_call_staging_inv:
  assumes "staging_inv c0 w"
  shows "staging_inv c0 (snd (do_call E ops c w)) \<and>
         length (staged (snd (do_call E ops c w))) \<le> Suc (length (staged w))"
proof -
  let ?w = "snd (do_call E ops c w)"
  from do_call_staging [of E ops c w] consider
    (same) "staged ?w = staged w" "fit_counter ?w = fit_counter w"
  | (more) p where "staged ?w = staged w @ [p]" "fit_counter ?w = fit_counter w + 1"
      "p = snprintf_d 64 ''/tmp/wl_xl_model_'' (fit_counter w) \<or>
       p = snprintf_d 64 ''/tmp/wl_xl_pred_'' (fit_counter w)"
    by blast
  then show ?thesis
  proof cases
    case same
    with assms show ?thesis by (simp add: staging_inv_def)
  next
    case (more p)
    from assms have c: "fit_counter w = c0 + int (length (staged w))"
      and a: "\<forall>i < length (staged w).
         staged w ! i = snprintf_d 64 ''/tmp/wl_xl_model_'' (c0 + int i) \<or>
         staged w ! i = snprintf_d 64 ''/tmp/wl_xl_pred_'' (c0 + int i)"
      by (simp_all add: staging_inv_def)
    have "staged ?w ! i = snprintf_d 64 ''/tmp/wl_xl_model_'' (c0 + int i) \<or>
          staged ?w ! i = snprintf_d 64 ''/tmp/wl_xl_pred_'' (c0 + int i)"
      if "i < length (staged ?w)" for i
    proof (cases "i < length (staged w)")
      case True
      with a more(1) show ?thesis by (simp add: nth_append)
    next
      case False
      with that more(1) have "i = length (staged w)" by simp
      with more c show ?thesis by (simp add: nth_append)
    qed
    with more c show ?thesis by (simp add: staging_inv_def)
  qed
qed

lemma run_staging_inv:
  "staging_inv c0 w \<Longrightarrow>
     staging_inv c0 (run E ops cs w) \<and> length (staged (run E ops cs w)) \<le> length (staged w) + length cs"
proof (induction cs arbitrary: w)
  case Nil
  then show ?case by simp
next
  case (Cons c cs)
  from do_call_staging_inv [OF Cons.prems, of E ops c]
  have 1: "staging_inv c0 (snd (do_call E ops c w))"
    and 2: "length (staged (snd (do_call E ops c w))) \<le> Suc (length (staged w))" by simp_all
  from Cons.IH [OF 1] 2 show ?case by simp
qed

lemma staging_inv_distinct:
  assumes inv: "staging_inv c0 w" and lo: "- (2 ^ 31) \<le> c0"
    and hi: "c0 + int (length (staged w)) \<le> 2 ^ 31"
  shows "distinct (staged w)"
proof -
  have "staged w ! i \<noteq> staged w ! j" if "i < length (staged w)" "j < length (staged w)" "i \<noteq> j" for i j
  proof
    assume e: "staged w ! i = staged w ! j"
    have ri: "- (2 ^ 31) \<le> c0 + int i" "c0 + int i < 2 ^ 31" using lo hi that by simp_all
    have rj: "- (2 ^ 31) \<le> c0 + int j" "c0 + int j < 2 ^ 31" using lo hi that by simp_all
    from inv that have
      "staged w ! i = snprintf_d 64 ''/tmp/wl_xl_model_'' (c0 + int i) \<or>
       staged w ! i = snprintf_d 64 ''/tmp/wl_xl_pred_'' (c0 + int i)"
      "staged w ! j = snprintf_d 64 ''/tmp/wl_xl_model_'' (c0 + int j) \<or>
       staged w ! j = snprintf_d 64 ''/tmp/wl_xl_pred_'' (c0 + int j)"
      by (simp_all add: staging_inv_def)
    with e stage_name_inj [OF ri rj, of "staged w ! i"] have "c0 + int i = c0 + int j" by simp
    with that show False by simp
  qed
  then show ?thesis by (simp add: distinct_conv_nth)
qed

subsection \<open>Reclaiming the staging file, and the error slot after a success\<close>

lemma files_frame:
  "files (set_error m w) = files w" "files (clear_error w) = files w"
  "files (set_engine_error E m w) = files w"
  "files (fclose f w) = files w"
  "files (sys_dup2 a b w) = files w" "files (sys_close a w) = files w"
  "files (emit ls w) = files w"
  "files (snd (sys_dup a w)) = files w" "files (snd (sys_open s w)) = files w"
  "files (snd (fopen_rb p w)) = files w"
  "files (snd (call_SetDMatrix E h k d w)) = files w"
  "files (snd (next_path prefix w)) = files w"
  "files (sys_remove p w) p = None"
  by (simp_all add: set_error_def clear_error_def set_engine_error_def fclose_def sys_dup2_def
        sys_close_def emit_def sys_dup_def sys_open_def fopen_rb_def call_SetDMatrix_def
        next_path_def sys_remove_def Let_def split: option.splits prod.splits)

lemma files_frame_stdout: "files (restore_stdout w) = files w"
  by (simp add: restore_stdout_def files_frame)

lemma error_frame:
  "last_error (sys_remove p w) = last_error w"
  "last_error (fclose f w) = last_error w" "last_error (fwrite p c w) = last_error w"
  "last_error (sys_dup2 a b w) = last_error w" "last_error (sys_close a w) = last_error w"
  "last_error (emit ls w) = last_error w"
  "last_error (snd (sys_dup a w)) = last_error w" "last_error (snd (sys_open s w)) = last_error w"
  "last_error (snd (fopen_rb p w)) = last_error w" "last_error (snd (fopen_wb p w)) = last_error w"
  "last_error (snd (call_SetDMatrix E h k d w)) = last_error w"
  "last_error (snd (call_Fit E h p w)) = last_error w"
  "last_error (snd (call_PredictForMat E h p w)) = last_error w"
  "last_error (snd (next_path prefix w)) = last_error w"
  "last_error (clear_error w) = []"
  by (simp_all add: sys_remove_def fclose_def fwrite_def sys_dup2_def sys_close_def emit_def
        sys_dup_def sys_open_def fopen_rb_def fopen_wb_def call_SetDMatrix_def call_Fit_def
        call_PredictForMat_def next_path_def clear_error_def Let_def
        split: option.splits prod.splits)

lemma error_frame_stdout:
  "last_error (suppress_stdout w) = last_error w" "last_error (restore_stdout w) = last_error w"
proof -
  obtain saved w1 where d: "sys_dup 1 w = (saved, w1)" by (cases "sys_dup 1 w")
  obtain devnull w2 where p: "sys_open DevNull (w1\<lparr> saved_stdout_fd := saved \<rparr>) = (devnull, w2)"
    by (cases "sys_open DevNull (w1\<lparr> saved_stdout_fd := saved \<rparr>)")
  from error_frame(7) [of 1 w] d have 1: "last_error w1 = last_error w" by simp
  from error_frame(8) [of DevNull "w1\<lparr> saved_stdout_fd := saved \<rparr>"] p 1
  have 2: "last_error w2 = last_error w" by simp
  from d p 2 show "last_error (suppress_stdout w) = last_error w"
    by (simp add: suppress_stdout_def error_frame)
  show "last_error (restore_stdout w) = last_error w"
    by (simp add: restore_stdout_def error_frame)
qed

text \<open>
  After \<open>fit\<close> the staging file is gone, unless the model file could not be reopened.
\<close>

lemma fit_read_model_reclaims:
  "files (snd (fit_read_model p w)) p = None \<or>
   last_error (snd (fit_read_model p w)) = ''wl_xl_fit: cannot read model file from MEMFS''"
proof -
  obtain fo w1 where f: "fopen_rb p w = (fo, w1)" by (cases "fopen_rb p w")
  then show ?thesis
    by (cases fo) (simp_all add: fit_read_model_def Let_def set_error_def files_frame)
qed

lemma fit_train_reclaims:
  "files (snd (fit_train E h w)) (snprintf_d 64 ''/tmp/wl_xl_model_'' (fit_counter w)) = None \<or>
   last_error (snd (fit_train E h w)) = ''wl_xl_fit: cannot read model file from MEMFS''"
proof -
  let ?p = "snprintf_d 64 ''/tmp/wl_xl_model_'' (fit_counter w)"
  let ?w1 = "w\<lparr> fit_counter := fit_counter w + 1, staged := staged w @ [?p] \<rparr>"
  obtain ret w2 where c: "call_Fit E h ?p (suppress_stdout ?w1) = (ret, w2)"
    by (cases "call_Fit E h ?p (suppress_stdout ?w1)")
  with fit_read_model_reclaims [of ?p "restore_stdout w2"] show ?thesis
    by (auto simp add: fit_train_def next_path_def Let_def files_frame)
qed

lemma wl_xl_fit_reclaims:
  "files (snd (wl_xl_fit E h dtrain dvalid ob ol w)) = files w \<or>
   files (snd (wl_xl_fit E h dtrain dvalid ob ol w))
     (snprintf_d 64 ''/tmp/wl_xl_model_'' (fit_counter w)) = None \<or>
   last_error (snd (wl_xl_fit E h dtrain dvalid ob ol w)) =
     ''wl_xl_fit: cannot read model file from MEMFS''"
proof -
  have "(files (snd (wl_xl_fit E h dtrain dvalid ob ol w)),
         fit_counter (snd (wl_xl_fit E h dtrain dvalid ob ol w))) = (files w, fit_counter w) \<or>
        (\<exists>w1. (files w1, fit_counter w1) = (files w, fit_counter w) \<and>
           wl_xl_fit E h dtrain dvalid ob ol w = fit_train E h w1)"
    by (rule wl_xl_fit_cases [where P = "\<lambda>w. (files w, fit_counter w)"])
       (simp_all add: files_frame staging_frame_calls)
  then show ?thesis
  proof (elim disjE exE conjE)
    fix w1
    assume "(files w1, fit_counter w1) = (files w, fit_counter w)"
      and "wl_xl_fit E h dtrain dvalid ob ol w = fit_train E h w1"
    with fit_train_reclaims [of E h w1] show ?thesis by auto
  qed simp
qed

text \<open>After \<open>predict\<close> the staging file is gone, if the call could create it at all.\<close>

lemma predict_run_reclaims: "files (snd (predict_run E h p w)) p = None"
proof -
  obtain ret arr w1 where c: "call_PredictForMat E h p (suppress_stdout w) = ((ret, arr), w1)"
    by (cases "call_PredictForMat E h p (suppress_stdout w)") auto
  then show ?thesis
    by (simp add: predict_run_def Let_def files_frame set_error_def)
qed

lemma wl_xl_predict_reclaims:
  "files (snd (wl_xl_predict E h model_buf model_len dtest op ol w)) = files w \<or>
   files (snd (wl_xl_predict E h model_buf model_len dtest op ol w))
     (snprintf_d 64 ''/tmp/wl_xl_pred_'' (fit_counter w)) = None"
proof (cases "model_buf = None \<or> h = 0 \<or> model_len \<le> 0 \<or> dtest = 0 \<or> op = 0 \<or> ol = 0")
  case True
  then show ?thesis
    by (auto simp add: wl_xl_predict_def Let_def files_frame split: option.splits)
next
  case False
  then obtain buf where buf: "model_buf = Some buf" by auto
  let ?p = "snprintf_d 64 ''/tmp/wl_xl_pred_'' (fit_counter w)"
  let ?w1 = "(clear_error w)\<lparr> fit_counter := fit_counter w + 1, staged := staged w @ [?p] \<rparr>"
  have n: "next_path ''/tmp/wl_xl_pred_'' (clear_error w) = (?p, ?w1)"
    by (simp add: next_path_def Let_def staging_frame)
  obtain fo w2 where f: "fopen_wb ?p ?w1 = (fo, w2)" by (cases "fopen_wb ?p ?w1")
  show ?thesis
  proof (cases fo)
    case None
    with f have "files w2 = files w"
      by (auto simp add: fopen_wb_def clear_error_def split: if_splits option.splits)
    with False buf n f None show ?thesis
      by (simp add: wl_xl_predict_def Let_def files_frame)
  next
    case (Some fd)
    let ?w3 = "fclose fd (fwrite ?p (take (nat model_len) buf) w2)"
    obtain ret w4 where s: "call_SetDMatrix E h ''test'' dtest ?w3 = (ret, w4)"
      by (cases "call_SetDMatrix E h ''test'' dtest ?w3")
    from False buf n f Some s show ?thesis
      by (simp add: wl_xl_predict_def Let_def files_frame predict_run_reclaims)
  qed
qed

text \<open>
  The operations that clear the error slot on entry leave it empty when they succeed.
\<close>

lemma fit_read_model_ok:
  "fst (fst (fit_read_model p w)) = 0 \<Longrightarrow> last_error (snd (fit_read_model p w)) = last_error w"
proof -
  obtain fo w1 where f: "fopen_rb p w = (fo, w1)" by (cases "fopen_rb p w")
  with error_frame(9) [of p w] have 1: "last_error w1 = last_error w" by simp
  assume "fst (fst (fit_read_model p w)) = 0"
  with f 1 show ?thesis
    by (cases fo) (auto simp add: fit_read_model_def Let_def error_frame split: if_splits)
qed

lemma fit_train_ok:
  assumes "fst (fst (fit_train E h w)) = 0"
  shows "last_error (snd (fit_train E h w)) = last_error w"
proof -
  let ?p = "snprintf_d 64 ''/tmp/wl_xl_model_'' (fit_counter w)"
  let ?w1 = "w\<lparr> fit_counter := fit_counter w + 1, staged := staged w @ [?p] \<rparr>"
  obtain ret w2 where c: "call_Fit E h ?p (suppress_stdout ?w1) = (ret, w2)"
    by (cases "call_Fit E h ?p (suppress_stdout ?w1)")
  with error_frame(12) [of E h ?p "suppress_stdout ?w1"]
  have 2: "last_error w2 = last_error w" by (simp add: error_frame_stdout)
  from assms c have r: "ret = 0" and e: "fit_train E h w = fit_read_model ?p (restore_stdout w2)"
    by (auto simp add: fit_train_def next_path_def Let_def split: if_splits)
  from assms e fit_read_model_ok [of ?p "restore_stdout w2"] 2 show ?thesis
    by (simp add: error_frame_stdout)
qed

lemma wl_xl_fit_ok:
  assumes "fst (fst (wl_xl_fit E h dtrain dvalid ob ol w)) = 0"
  shows "last_error (snd (wl_xl_fit E h dtrain dvalid ob ol w)) = []"
proof -
  let ?w = "clear_error w"
  obtain ret w1 where s1: "call_SetDMatrix E h ''train'' dtrain ?w = (ret, w1)"
    by (cases "call_SetDMatrix E h ''train'' dtrain ?w")
  with error_frame(11) [of E h "''train''" dtrain ?w] have 1: "last_error w1 = []"
    by (simp add: error_frame)
  obtain ret2 w2 where s2: "call_SetDMatrix E h ''validate'' dvalid w1 = (ret2, w2)"
    by (cases "call_SetDMatrix E h ''validate'' dvalid w1")
  with error_frame(11) [of E h "''validate''" dvalid w1] 1 have 2: "last_error w2 = []" by simp
  from assms s1 s2 have
    "(wl_xl_fit E h dtrain dvalid ob ol w = fit_train E h w1 \<and> fst (fst (fit_train E h w1)) = 0) \<or>
     (wl_xl_fit E h dtrain dvalid ob ol w = fit_train E h w2 \<and> fst (fst (fit_train E h w2)) = 0)"
    by (auto simp add: wl_xl_fit_def Let_def split: if_splits)
  with fit_train_ok [of E h w1] fit_train_ok [of E h w2] 1 2 show ?thesis by auto
qed

lemma predict_run_ok:
  assumes "fst (fst (predict_run E h p w)) = 0"
  shows "last_error (snd (predict_run E h p w)) = last_error w"
proof -
  obtain ret arr w1 where c: "call_PredictForMat E h p (suppress_stdout w) = ((ret, arr), w1)"
    by (cases "call_PredictForMat E h p (suppress_stdout w)") auto
  with error_frame(13) [of E h p "suppress_stdout w"]
  have 1: "last_error w1 = last_error w" by (simp add: error_frame_stdout)
  from assms c 1 show ?thesis
    by (auto simp add: predict_run_def Let_def error_frame error_frame_stdout split: if_splits)
qed

lemma wl_xl_predict_ok:
  assumes "fst (fst (wl_xl_predict E h model_buf model_len dtest op ol w)) = 0"
  shows "last_error (snd (wl_xl_predict E h model_buf model_len dtest op ol w)) = []"
proof -
  from assms obtain buf where buf: "model_buf = Some buf"
    and v: "\<not> (h = 0 \<or> model_len \<le> 0 \<or> dtest = 0 \<or> op = 0 \<or> ol = 0)"
    by (cases model_buf) (auto simp add: wl_xl_predict_def Let_def split: if_splits)
  obtain p w1 where n: "next_path ''/tmp/wl_xl_pred_'' (clear_error w) = (p, w1)"
    by (cases "next_path ''/tmp/wl_xl_pred_'' (clear_error w)")
  with error_frame(14) [of "''/tmp/wl_xl_pred_''" "clear_error w"] have 1: "last_error w1 = []"
    by (simp add: error_frame)
  obtain fo w2 where f: "fopen_wb p w1 = (fo, w2)" by (cases "fopen_wb p w1")
  with error_frame(10) [of p w1] 1 have 2: "last_error w2 = []" by simp
  from assms buf v n f obtain fd where fd: "fo = Some fd"
    by (cases fo) (auto simp add: wl_xl_predict_def Let_def)
  let ?w3 = "fclose fd (fwrite p (take (nat model_len) buf) w2)"
  obtain ret w4 where s: "call_SetDMatrix E h ''test'' dtest ?w3 = (ret, w4)"
    by (cases "call_SetDMatrix E h ''test'' dtest ?w3")
  with error_frame(11) [of E h "''test''" dtest ?w3] 2 have 4: "last_error w4 = []"
    by (simp add: error_frame)
  from assms buf v n f fd s have
    "wl_xl_predict E h model_buf model_len dtest op ol w = predict_run E h p w4"
    by (auto simp add: wl_xl_predict_def Let_def split: if_splits)
  with assms predict_run_ok [of E h p w4] 4 show ?thesis by simp
qed

lemma finish_build_ok_error:
  "fst (fst (finish_build r w)) = 0 \<Longrightarrow> last_error (snd (finish_build r w)) = last_error w"
  by (auto simp add: finish_build_def split: prod.splits option.splits)

lemma clearing_calls_leave_no_error:
  assumes "fst (fst (do_call E ops c w)) = 0"
    and "\<forall>h k v. c \<noteq> Set_str h k v" "\<forall>h k v. c \<noteq> Set_int h k v"
    and "\<forall>h k v. c \<noteq> Set_float h k v" "\<forall>h k v. c \<noteq> Set_bool h k v"
  shows "wl_xl_get_last_error (snd (do_call E ops c w)) = []"
proof (cases c)
  case (Create model_type out)
  with assms(1) show ?thesis
    by (auto simp add: wl_xl_get_last_error_def wl_xl_create_def Let_def call_Create_def
          call_SetBool_def call_SetInt_def call_SetStr_def clear_error_def
          split: option.splits prod.splits if_splits)
next
  case (Build_dense data nrow ncol label field_map out)
  with assms(1) show ?thesis
    by (auto simp add: wl_xl_get_last_error_def wl_xl_create_dmatrix_dense_def Let_def
          finish_build_ok_error error_frame split: option.splits if_splits)
next
  case (Build_csr vs nnz cs rp nrow ncol label field_map out)
  with assms(1) show ?thesis
    by (auto simp add: wl_xl_get_last_error_def wl_xl_create_dmatrix_csr_def Let_def
          finish_build_ok_error error_frame split: option.splits if_splits)
next
  case (Fit h dtrain dvalid out_buf out_len)
  with assms(1) wl_xl_fit_ok [of E h dtrain dvalid out_buf out_len w] show ?thesis
    by (simp add: wl_xl_get_last_error_def)
next
  case (Predict h buf len dtest out_preds out_len)
  with assms(1) wl_xl_predict_ok [of E h buf len dtest out_preds out_len w] show ?thesis
    by (simp add: wl_xl_get_last_error_def)
qed (use assms in simp_all)

subsection \<open>Dense and CSR construction\<close>

text \<open>
  C2. For a dense array of \<open>nrow\<close> rows and \<open>ncol\<close> columns, \<open>build_dense\<close> returns what
  \<open>build_csr\<close> returns on the explicitly sparse representation of the same data (zero
  entries omitted), given the same label and field map: the same status, and in the
  resulting state the same matrix, with the same rows, nodes in the same order, labels
  and normalization scalars.
\<close>

theorem dense_equals_sparse_csr:
  assumes "0 < nrow" and "0 < ncol" and "out \<noteq> 0"
  shows "wl_xl_create_dmatrix_dense ops (Some data) nrow ncol label field_map out w =
         wl_xl_create_dmatrix_csr ops (Some (csr_values_of ops data nrow ncol)) nnz
           (Some (csr_col_indices_of ops data nrow ncol)) (Some (csr_row_ptr_of ops data nrow ncol))
           nrow ncol label field_map out w"
proof -
  have "dense_rows ops data nrow ncol label field_map 0 st =
        csr_rows ops (csr_values_of ops data nrow ncol) (csr_col_indices_of ops data nrow ncol)
          (csr_row_ptr_of ops data nrow ncol) nrow label field_map 0 st" for st
    by (simp add: dense_rows_eq csr_rows_eq sparse_row_list)
  with assms show ?thesis
    by (simp add: wl_xl_create_dmatrix_dense_def wl_xl_create_dmatrix_csr_def Let_def)
qed

theorem dense_equals_sparse_csr_witness:
  "(0::int) < 2 \<and> (0::int) < 3 \<and> (1::nat) \<noteq> 0 \<and>
   fst (wl_xl_create_dmatrix_csr fv_ops (Some (csr_values_of fv_ops sample_data 2 3)) 2
          (Some (csr_col_indices_of fv_ops sample_data 2 3))
          (Some (csr_row_ptr_of fv_ops sample_data 2 3)) 2 3 (Some sample_label) None 1 world0) =
     (0, Some (Out_matrix 1)) \<and>
   heap (snd (wl_xl_create_dmatrix_csr fv_ops (Some (csr_values_of fv_ops sample_data 2 3)) 2
          (Some (csr_col_indices_of fv_ops sample_data 2 3))
          (Some (csr_row_ptr_of fv_ops sample_data 2 3)) 2 3 (Some sample_label) None 1 world0)) =
     [Some \<lparr> row = [[\<lparr> field_id = 0, feat_id = 0, feat_val = Fin 1 \<rparr>,
                      \<lparr> field_id = 0, feat_id = 2, feat_val = Fin 2 \<rparr>], []],
              Y = [Fin 1, Fin 0], norm_dm = [Fin (1 / 5), Fin 1], has_label = True \<rparr>]"
proof -
  have d: "fst (wl_xl_create_dmatrix_dense fv_ops (Some sample_data) 2 3 (Some sample_label) None 1 world0) =
             (0, Some (Out_matrix 1))"
    "heap (snd (wl_xl_create_dmatrix_dense fv_ops (Some sample_data) 2 3 (Some sample_label) None 1 world0)) =
     [Some \<lparr> row = [[\<lparr> field_id = 0, feat_id = 0, feat_val = Fin 1 \<rparr>,
                      \<lparr> field_id = 0, feat_id = 2, feat_val = Fin 2 \<rparr>], []],
              Y = [Fin 1, Fin 0], norm_dm = [Fin (1 / 5), Fin 1], has_label = True \<rparr>]"
    by code_simp+
  have h: "(0::int) < 2" "(0::int) < 3" "(1::nat) \<noteq> 0" by simp_all
  show ?thesis
    using h d dense_equals_sparse_csr [OF h, of fv_ops sample_data "Some sample_label" None world0 2]
    by simp
qed

text \<open>
  C4, as amended. For every row of a matrix returned by \<open>build_dense\<close> or \<open>build_csr\<close>,
  the stored normalization scalar is 1 divided by the accumulated sum of the squares of
  the values of that row's nodes when that sum compares greater than zero, and 1
  otherwise (the sum is zero or NaN; a row with no nodes gets 1).
\<close>

theorem norm_scalar_of_rows:
  assumes "r = wl_xl_create_dmatrix_dense ops data nrow ncol label field_map out w \<or>
           r = wl_xl_create_dmatrix_csr ops values nnz col_indices row_ptr nrow ncol label field_map out w"
    and "fst r = (0, Some (Out_matrix p))"
  shows "\<exists>m. heap (snd r) ! (p - 1) = Some m \<and> length (row m) = nat nrow \<and>
           length (norm_dm m) = nat nrow \<and>
           (\<forall>i < nat nrow. norm_dm m ! i =
              (let s = sum_sq ops (fzero ops) (map feat_val (row m ! i))
               in if fgt ops s (fzero ops) then fdiv ops (fone ops) s else fone ops))"
proof -
  have "\<exists>m rs. heap (snd r) ! (p - 1) = Some m \<and> row m = map (built_row field_map) rs \<and>
           norm_dm m = map (built_norm ops) rs \<and> length rs = nat nrow"
    using assms(1)
  proof
    assume r: "r = wl_xl_create_dmatrix_dense ops data nrow ncol label field_map out w"
    from dense_success [of ops data nrow ncol label field_map out w p] assms(2) r
    obtain d m where "heap (snd r) ! (p - 1) = Some m"
      "row m = map (built_row field_map) (dense_row_list ops d nrow ncol label 0)"
      "norm_dm m = map (built_norm ops) (dense_row_list ops d nrow ncol label 0)"
      by auto
    then show ?thesis
      using length_dense_row_list [of ops d nrow ncol label] by blast
  next
    assume r: "r = wl_xl_create_dmatrix_csr ops values nnz col_indices row_ptr nrow ncol label
                     field_map out w"
    from csr_success [of ops "values" nnz col_indices row_ptr nrow ncol label field_map out w p]
      assms(2) r
    obtain vs cs rp m where "heap (snd r) ! (p - 1) = Some m"
      "row m = map (built_row field_map) (csr_row_list vs cs rp nrow label 0)"
      "norm_dm m = map (built_norm ops) (csr_row_list vs cs rp nrow label 0)"
      by auto
    then show ?thesis
      using length_csr_row_list [of vs cs rp nrow label] by blast
  qed
  then obtain m rs where h: "heap (snd r) ! (p - 1) = Some m"
    and rw: "row m = map (built_row field_map) rs"
    and nm: "norm_dm m = map (built_norm ops) rs"
    and len: "length rs = nat nrow"
    by blast
  have "norm_dm m ! i = norm_scalar ops (sum_sq ops (fzero ops) (map feat_val (row m ! i)))"
    if "i < nat nrow" for i
    using that len by (simp add: rw nm built_norm_row [of ops _ field_map])
  with h rw nm len show ?thesis
    by (auto simp add: norm_scalar_def Let_def)
qed

theorem norm_scalar_of_rows_witness:
  "fst (wl_xl_create_dmatrix_dense fv_ops (Some sample_data) 2 3 (Some sample_label) None 1 world0) =
     (0, Some (Out_matrix 1)) \<and>
   (\<exists>m. heap (snd (wl_xl_create_dmatrix_dense fv_ops (Some sample_data) 2 3 (Some sample_label)
                    None 1 world0)) ! 0 = Some m \<and>
        norm_dm m ! 0 = Fin (1 / 5) \<and> norm_dm m ! 1 = Fin 1)"
proof -
  let ?r = "wl_xl_create_dmatrix_dense fv_ops (Some sample_data) 2 3 (Some sample_label) None 1 world0"
  have s: "fst ?r = (0, Some (Out_matrix 1))" by code_simp
  have hp: "heap (snd ?r) =
     [Some \<lparr> row = [[\<lparr> field_id = 0, feat_id = 0, feat_val = Fin 1 \<rparr>,
                      \<lparr> field_id = 0, feat_id = 2, feat_val = Fin 2 \<rparr>], []],
              Y = [Fin 1, Fin 0], norm_dm = [Fin (1 / 5), Fin 1], has_label = True \<rparr>]"
    by code_simp
  from norm_scalar_of_rows [OF disjI1 [OF refl] s]
  obtain m where "heap (snd ?r) ! (1 - 1) = Some m" by blast
  with hp s show ?thesis by auto
qed

text \<open>
  C4 as the spec words it (1 divided by the sum when the sum is nonzero, 1 when it is
  zero) fails on a row that holds a NaN: the sum is NaN, which does not compare equal to
  zero, and the stored scalar is 1, not 1 divided by the sum.
\<close>

theorem norm_scalar_nan_counterexample:
  "fst (wl_xl_create_dmatrix_dense fv_ops (Some nan_data) 1 1 None None 1 world0) =
     (0, Some (Out_matrix 1)) \<and>
   norm_dm (the (heap (snd (wl_xl_create_dmatrix_dense fv_ops (Some nan_data) 1 1 None None 1 world0)) ! 0)) ! 0
     \<noteq> spec_scalar fv_ops (sum_sq fv_ops (fzero fv_ops) (map feat_val
          (row (the (heap (snd (wl_xl_create_dmatrix_dense fv_ops (Some nan_data) 1 1 None None 1
             world0)) ! 0)) ! 0)))"
  by code_simp

text \<open>
  C6. \<open>build_csr\<close> appends one node for every entry index in
  \<open>[row_ptr[i], row_ptr[i+1])\<close> of each row \<open>i\<close>, in order and without filtering: an entry
  whose value is zero becomes a node like any other, and the norm accumulator runs over
  all the entries of the row.
\<close>

theorem csr_keeps_every_entry:
  assumes "fst (wl_xl_create_dmatrix_csr ops (Some values) nnz (Some col_indices) (Some row_ptr)
                  nrow ncol label field_map out w) = (0, Some (Out_matrix p))"
  shows "\<exists>m. heap (snd (wl_xl_create_dmatrix_csr ops (Some values) nnz (Some col_indices)
                          (Some row_ptr) nrow ncol label field_map out w)) ! (p - 1) = Some m \<and>
           length (row m) = nat nrow \<and>
           (\<forall>i. 0 \<le> i \<and> i < nrow \<longrightarrow>
              row m ! nat i =
                map (\<lambda>j. \<lparr> field_id = field_of field_map (col_indices j),
                            feat_id = index_t (col_indices j), feat_val = values j \<rparr>)
                  [row_ptr i..row_ptr (i + 1) - 1] \<and>
              length (row m ! nat i) = nat (row_ptr (i + 1) - row_ptr i) \<and>
              norm_dm m ! nat i =
                norm_scalar ops (sum_sq ops (fzero ops) (map values [row_ptr i..row_ptr (i + 1) - 1])))"
proof -
  let ?rs = "csr_row_list values col_indices row_ptr nrow label 0"
  from csr_success [OF assms] obtain m where
    h: "heap (snd (wl_xl_create_dmatrix_csr ops (Some values) nnz (Some col_indices)
                          (Some row_ptr) nrow ncol label field_map out w)) ! (p - 1) = Some m"
    and rw: "row m = map (built_row field_map) ?rs"
    and nm: "norm_dm m = map (built_norm ops) ?rs"
    by auto
  have nth: "?rs ! nat i = (map_option (\<lambda>l. l i) label,
               csr_row_entries values col_indices (row_ptr i) (row_ptr (i + 1)))"
    if "0 \<le> i" "i < nrow" for i
    using that by (simp add: csr_row_list_def nth_upto)
  have "row m ! nat i =
          map (\<lambda>j. \<lparr> field_id = field_of field_map (col_indices j),
                      feat_id = index_t (col_indices j), feat_val = values j \<rparr>)
            [row_ptr i..row_ptr (i + 1) - 1] \<and>
        length (row m ! nat i) = nat (row_ptr (i + 1) - row_ptr i) \<and>
        norm_dm m ! nat i =
          norm_scalar ops (sum_sq ops (fzero ops) (map values [row_ptr i..row_ptr (i + 1) - 1]))"
    if "0 \<le> i" "i < nrow" for i
    using that nth [OF that]
    by (simp add: rw nm length_csr_row_list built_row_def built_norm_def csr_row_entries_def
          node_of_def comp_def)
  with h rw show ?thesis
    by (auto simp add: length_csr_row_list)
qed

theorem csr_keeps_every_entry_witness:
  "fst (wl_xl_create_dmatrix_csr fv_ops (Some sample_values) 2 (Some sample_cols)
          (Some sample_row_ptr) 1 3 None None 1 world0) = (0, Some (Out_matrix 1)) \<and>
   (\<exists>m. heap (snd (wl_xl_create_dmatrix_csr fv_ops (Some sample_values) 2 (Some sample_cols)
                    (Some sample_row_ptr) 1 3 None None 1 world0)) ! 0 = Some m \<and>
        row m ! 0 = [\<lparr> field_id = 0, feat_id = 0, feat_val = Fin 3 \<rparr>,
                     \<lparr> field_id = 0, feat_id = 2, feat_val = Fin 0 \<rparr>] \<and>
        length (row m ! 0) = 2 \<and> norm_dm m ! 0 = Fin (1 / 9))"
proof -
  let ?r = "wl_xl_create_dmatrix_csr fv_ops (Some sample_values) 2 (Some sample_cols)
              (Some sample_row_ptr) 1 3 None None 1 world0"
  have s: "fst ?r = (0, Some (Out_matrix 1))" by code_simp
  have u: "[sample_row_ptr 0..sample_row_ptr (0 + 1) - 1] = [0, 1]"
    by (simp add: sample_row_ptr_def upto_rec1)
  from csr_keeps_every_entry [OF s] obtain m where
    h: "heap (snd ?r) ! (1 - 1) = Some m"
    and a: "\<forall>i. 0 \<le> i \<and> i < 1 \<longrightarrow>
              row m ! nat i =
                map (\<lambda>j. \<lparr> field_id = field_of None (sample_cols j),
                            feat_id = index_t (sample_cols j), feat_val = sample_values j \<rparr>)
                  [sample_row_ptr i..sample_row_ptr (i + 1) - 1] \<and>
              length (row m ! nat i) = nat (sample_row_ptr (i + 1) - sample_row_ptr i) \<and>
              norm_dm m ! nat i =
                norm_scalar fv_ops (sum_sq fv_ops (fzero fv_ops)
                  (map sample_values [sample_row_ptr i..sample_row_ptr (i + 1) - 1]))"
    by blast
  from a [rule_format, of 0] u have
    "row m ! 0 = [\<lparr> field_id = 0, feat_id = 0, feat_val = Fin 3 \<rparr>,
                  \<lparr> field_id = 0, feat_id = 2, feat_val = Fin 0 \<rparr>]"
    "length (row m ! 0) = 2" "norm_dm m ! 0 = Fin (1 / 9)"
    by (simp_all add: sample_cols_def sample_values_def sample_row_ptr_def field_of_def index_t_def
          norm_scalar_def sum_sq_def fv_ops_def)
  with h s show ?thesis by simp
qed

subsection \<open>Argument checks, defaults and the error slot\<close>

text \<open>
  C9. \<open>create(model_type, out)\<close> fails when \<open>model_type\<close> or \<open>out\<close> is null, without a
  call into the engine, whose state is left as it was. When the engine accepts the model
  type, the calls that follow \<open>XLearnCreate\<close> are exactly the seven default settings
  on the new handle, in this order: quiet on, lock_free off, from_file off, bin_out off,
  early_stop off, nthread 1, log to \<open>/dev/null\<close>. The engine's state after \<open>create\<close> is
  the state \<open>XLearnCreate\<close> returned with these seven setters applied to it in that
  order; then the handle is stored in \<open>out\<close> and the status is 0.
\<close>

theorem create_applies_defaults:
  "(is_null model_type \<or> out = 0 \<longrightarrow>
      fst (wl_xl_create E model_type out w) = (-1, None) \<and>
      calls (snd (wl_xl_create E model_type out w)) = calls w \<and>
      engine (snd (wl_xl_create E model_type out w)) = engine w) \<and>
   (\<forall>mt h e. model_type = Some mt \<and> out \<noteq> 0 \<and> XLearnCreate E mt (engine w) = ((0, h), e) \<longrightarrow>
      fst (wl_xl_create E model_type out w) = (0, Some (Out_handle h)) \<and>
      calls (snd (wl_xl_create E model_type out w)) =
        calls w @ [Call_Create mt,
                   Call_SetBool h ''quiet'' True, Call_SetBool h ''lock_free'' False,
                   Call_SetBool h ''from_file'' False, Call_SetBool h ''bin_out'' False,
                   Call_SetBool h ''early_stop'' False, Call_SetInt h ''nthread'' 1,
                   Call_SetStr h ''log'' ''/dev/null''] \<and>
      engine (snd (wl_xl_create E model_type out w)) =
        snd (XLearnSetStr E h ''log'' ''/dev/null''
          (snd (XLearnSetInt E h ''nthread'' 1
            (snd (XLearnSetBool E h ''early_stop'' False
              (snd (XLearnSetBool E h ''bin_out'' False
                (snd (XLearnSetBool E h ''from_file'' False
                  (snd (XLearnSetBool E h ''lock_free'' False
                    (snd (XLearnSetBool E h ''quiet'' True e))))))))))))) \<and>
      last_error (snd (wl_xl_create E model_type out w)) = [])"
proof (intro conjI impI allI)
  assume "is_null model_type \<or> out = 0"
  then show "fst (wl_xl_create E model_type out w) = (-1, None)"
    by (auto simp add: wl_xl_create_def is_null_def Let_def split: option.splits)
next
  assume "is_null model_type \<or> out = 0"
  then show "calls (snd (wl_xl_create E model_type out w)) = calls w"
    by (auto simp add: wl_xl_create_def is_null_def Let_def set_error_def clear_error_def
          split: option.splits)
next
  assume "is_null model_type \<or> out = 0"
  then show "engine (snd (wl_xl_create E model_type out w)) = engine w"
    by (auto simp add: wl_xl_create_def is_null_def Let_def set_error_def clear_error_def
          split: option.splits)
next
  fix mt h e
  assume a: "model_type = Some mt \<and> out \<noteq> 0 \<and> XLearnCreate E mt (engine w) = ((0, h), e)"
  then show "fst (wl_xl_create E model_type out w) = (0, Some (Out_handle h))"
    by (simp add: wl_xl_create_def Let_def call_Create_def clear_error_def)
next
  fix mt h e
  assume a: "model_type = Some mt \<and> out \<noteq> 0 \<and> XLearnCreate E mt (engine w) = ((0, h), e)"
  then show "calls (snd (wl_xl_create E model_type out w)) =
        calls w @ [Call_Create mt,
                   Call_SetBool h ''quiet'' True, Call_SetBool h ''lock_free'' False,
                   Call_SetBool h ''from_file'' False, Call_SetBool h ''bin_out'' False,
                   Call_SetBool h ''early_stop'' False, Call_SetInt h ''nthread'' 1,
                   Call_SetStr h ''log'' ''/dev/null'']"
    by (simp add: wl_xl_create_def Let_def call_Create_def call_SetBool_def call_SetInt_def
          call_SetStr_def clear_error_def split: prod.splits)
next
  fix mt h e
  assume a: "model_type = Some mt \<and> out \<noteq> 0 \<and> XLearnCreate E mt (engine w) = ((0, h), e)"
  then show "engine (snd (wl_xl_create E model_type out w)) =
        snd (XLearnSetStr E h ''log'' ''/dev/null''
          (snd (XLearnSetInt E h ''nthread'' 1
            (snd (XLearnSetBool E h ''early_stop'' False
              (snd (XLearnSetBool E h ''bin_out'' False
                (snd (XLearnSetBool E h ''from_file'' False
                  (snd (XLearnSetBool E h ''lock_free'' False
                    (snd (XLearnSetBool E h ''quiet'' True e)))))))))))))"
    by (simp add: wl_xl_create_def Let_def call_Create_def call_SetBool_def call_SetInt_def
          call_SetStr_def clear_error_def case_prod_unfold)
next
  fix mt h e
  assume a: "model_type = Some mt \<and> out \<noteq> 0 \<and> XLearnCreate E mt (engine w) = ((0, h), e)"
  then show "last_error (snd (wl_xl_create E model_type out w)) = []"
    by (simp add: wl_xl_create_def Let_def call_Create_def call_SetBool_def call_SetInt_def
          call_SetStr_def clear_error_def split: prod.splits)
qed

theorem create_applies_defaults_witness:
  "(is_null (None :: string option) \<or> (1::nat) = 0) \<and>
   fst (wl_xl_create recording_engine None 1 world1) = (-1, None) \<and>
   calls (snd (wl_xl_create recording_engine None 1 world1)) = [] \<and>
   engine (snd (wl_xl_create recording_engine None 1 world1)) = [] \<and>
   XLearnCreate recording_engine ''fm'' (engine world1) = ((0, 7), [Call_Create ''fm'']) \<and>
   fst (wl_xl_create recording_engine (Some ''fm'') 1 world1) = (0, Some (Out_handle 7)) \<and>
   calls (snd (wl_xl_create recording_engine (Some ''fm'') 1 world1)) =
     [Call_Create ''fm'',
      Call_SetBool 7 ''quiet'' True, Call_SetBool 7 ''lock_free'' False,
      Call_SetBool 7 ''from_file'' False, Call_SetBool 7 ''bin_out'' False,
      Call_SetBool 7 ''early_stop'' False, Call_SetInt 7 ''nthread'' 1,
      Call_SetStr 7 ''log'' ''/dev/null''] \<and>
   engine (snd (wl_xl_create recording_engine (Some ''fm'') 1 world1)) =
     [Call_Create ''fm'',
      Call_SetBool 7 ''quiet'' True, Call_SetBool 7 ''lock_free'' False,
      Call_SetBool 7 ''from_file'' False, Call_SetBool 7 ''bin_out'' False,
      Call_SetBool 7 ''early_stop'' False, Call_SetInt 7 ''nthread'' 1,
      Call_SetStr 7 ''log'' ''/dev/null'']"
proof -
  have n: "is_null (None :: string option) \<or> (1::nat) = 0" by (simp add: is_null_def)
  have c: "Some ''fm'' = Some ''fm'' \<and> (1::nat) \<noteq> 0 \<and>
           XLearnCreate recording_engine ''fm'' (engine world1) = ((0, 7), [Call_Create ''fm''])"
    by (simp add: recording_engine_def world1_def)
  have e: "calls world1 = []" "engine world1 = []" by (simp_all add: world1_def)
  from create_applies_defaults [of None 1 recording_engine world1] n
  have 1: "fst (wl_xl_create recording_engine None 1 world1) = (-1, None)"
    "calls (snd (wl_xl_create recording_engine None 1 world1)) = []"
    "engine (snd (wl_xl_create recording_engine None 1 world1)) = []"
    by (simp_all add: e)
  from create_applies_defaults [of "Some ''fm''" 1 recording_engine world1] c
  have 2: "fst (wl_xl_create recording_engine (Some ''fm'') 1 world1) = (0, Some (Out_handle 7))"
    "calls (snd (wl_xl_create recording_engine (Some ''fm'') 1 world1)) =
     [Call_Create ''fm'',
      Call_SetBool 7 ''quiet'' True, Call_SetBool 7 ''lock_free'' False,
      Call_SetBool 7 ''from_file'' False, Call_SetBool 7 ''bin_out'' False,
      Call_SetBool 7 ''early_stop'' False, Call_SetInt 7 ''nthread'' 1,
      Call_SetStr 7 ''log'' ''/dev/null'']"
    "engine (snd (wl_xl_create recording_engine (Some ''fm'') 1 world1)) =
     snd (XLearnSetStr recording_engine 7 ''log'' ''/dev/null''
          (snd (XLearnSetInt recording_engine 7 ''nthread'' 1
            (snd (XLearnSetBool recording_engine 7 ''early_stop'' False
              (snd (XLearnSetBool recording_engine 7 ''bin_out'' False
                (snd (XLearnSetBool recording_engine 7 ''from_file'' False
                  (snd (XLearnSetBool recording_engine 7 ''lock_free'' False
                    (snd (XLearnSetBool recording_engine 7 ''quiet'' True
                       [Call_Create ''fm''])))))))))))))"
    by (simp_all add: e)
  have 3: "snd (XLearnSetStr recording_engine 7 ''log'' ''/dev/null''
          (snd (XLearnSetInt recording_engine 7 ''nthread'' 1
            (snd (XLearnSetBool recording_engine 7 ''early_stop'' False
              (snd (XLearnSetBool recording_engine 7 ''bin_out'' False
                (snd (XLearnSetBool recording_engine 7 ''from_file'' False
                  (snd (XLearnSetBool recording_engine 7 ''lock_free'' False
                    (snd (XLearnSetBool recording_engine 7 ''quiet'' True
                       [Call_Create ''fm'']))))))))))))) =
     [Call_Create ''fm'',
      Call_SetBool 7 ''quiet'' True, Call_SetBool 7 ''lock_free'' False,
      Call_SetBool 7 ''from_file'' False, Call_SetBool 7 ''bin_out'' False,
      Call_SetBool 7 ''early_stop'' False, Call_SetInt 7 ''nthread'' 1,
      Call_SetStr 7 ''log'' ''/dev/null'']"
    by (simp add: recording_engine_def)
  from n c 1 2(1,2) 2(3) [unfolded 3] show ?thesis by simp
qed

text \<open>
  C5. A call with a null required pointer or a non-positive dimension returns a nonzero
  status and writes no output; it makes no call into the engine, generates no staging
  path and creates no file, and allocates no matrix.
\<close>

theorem missing_argument_fails_locally:
  assumes "missing_required c"
  shows "fst (fst (do_call E ops c w)) \<noteq> 0 \<and> snd (fst (do_call E ops c w)) = None \<and>
         calls (snd (do_call E ops c w)) = calls w \<and>
         engine (snd (do_call E ops c w)) = engine w \<and>
         staged (snd (do_call E ops c w)) = staged w \<and>
         fit_counter (snd (do_call E ops c w)) = fit_counter w \<and>
         files (snd (do_call E ops c w)) = files w \<and>
         heap (snd (do_call E ops c w)) = heap w \<and>
         fdtab (snd (do_call E ops c w)) = fdtab w"
proof (cases c)
  case (Create model_type out)
  with assms show ?thesis
    by (auto simp add: wl_xl_create_def is_null_def Let_def set_error_def clear_error_def
          split: option.splits)
next
  case (Set_str h k v)
  with assms show ?thesis
    by (auto simp add: wl_xl_set_str_def is_null_def set_error_def split: option.splits)
next
  case (Set_int h k v)
  with assms show ?thesis
    by (auto simp add: wl_xl_set_int_def is_null_def set_error_def split: option.splits)
next
  case (Set_float h k v)
  with assms show ?thesis
    by (auto simp add: wl_xl_set_float_def is_null_def set_error_def split: option.splits)
next
  case (Set_bool h k v)
  with assms show ?thesis
    by (auto simp add: wl_xl_set_bool_def is_null_def set_error_def split: option.splits)
next
  case (Build_dense data nrow ncol label field_map out)
  with assms show ?thesis
    by (auto simp add: wl_xl_create_dmatrix_dense_def is_null_def Let_def set_error_def
          clear_error_def split: option.splits)
next
  case (Build_csr vs nnz cs rp nrow ncol label field_map out)
  with assms show ?thesis
    by (auto simp add: wl_xl_create_dmatrix_csr_def is_null_def Let_def set_error_def
          clear_error_def split: option.splits)
next
  case (Fit h dtrain dvalid out_buf out_len)
  with assms show ?thesis
    by (auto simp add: wl_xl_fit_def Let_def set_error_def clear_error_def)
next
  case (Predict h buf len dtest out_preds out_len)
  with assms show ?thesis
    by (auto simp add: wl_xl_predict_def is_null_def Let_def set_error_def clear_error_def
          split: option.splits)
qed

theorem missing_argument_fails_locally_witness:
  "missing_required (Predict 7 (Some ''model'') 0 1 1 1 :: fval api_call) \<and>
   fst (fst (do_call sample_engine fv_ops (Predict 7 (Some ''model'') 0 1 1 1) world0)) \<noteq> 0 \<and>
   calls (snd (do_call sample_engine fv_ops (Predict 7 (Some ''model'') 0 1 1 1) world0)) = [] \<and>
   staged (snd (do_call sample_engine fv_ops (Predict 7 (Some ''model'') 0 1 1 1) world0)) = []"
proof -
  have m: "missing_required (Predict 7 (Some ''model'') 0 1 1 1 :: fval api_call)" by simp
  from missing_argument_fails_locally [OF m, of sample_engine fv_ops world0] m
  show ?thesis by (simp add: world0_def)
qed

text \<open>
  C3 (the code departs from it). \<open>wl_xl_set_str\<close>, \<open>wl_xl_set_int\<close>, \<open>wl_xl_set_float\<close>
  and \<open>wl_xl_set_bool\<close> do not clear \<open>last_error\<close> on entry. The other five operations
  do, and leave it empty when they succeed (\<open>clearing_calls_leave_no_error\<close>). After the
  failed \<open>wl_xl_create(NULL, &out)\<close>, a \<open>wl_xl_set_int\<close> that succeeds leaves the
  message of the earlier failure in the slot.
\<close>

theorem setter_keeps_stale_error:
  "fst (wl_xl_set_int sample_engine 7 (Some ''nthread'') 1
          (snd (wl_xl_create sample_engine None 1 world0))) = (0, None) \<and>
   wl_xl_get_last_error (snd (wl_xl_set_int sample_engine 7 (Some ''nthread'') 1
          (snd (wl_xl_create sample_engine None 1 world0)))) = ''wl_xl_create: null argument''"
  by (simp add: wl_xl_set_int_def wl_xl_create_def Let_def set_error_def clear_error_def
        call_SetInt_def sample_engine_def world0_def wl_xl_get_last_error_def)

text \<open>
  C10 (the code departs from it). When an allocation fails during construction, the
  output slot is not written and \<open>e.what()\<close> is stored, but the matrix allocated by
  \<open>new\<close> is not released: it stays on the heap as the throw left it, here with its
  one row and no node. The third allocation fails, in \<open>AddNode\<close> for the first entry.
\<close>

theorem failed_build_leaks_partial_matrix:
  "fst (wl_xl_create_dmatrix_dense fv_ops (Some sample_data) 2 3 (Some sample_label) None 1
          (world0\<lparr> mem := 2 \<rparr>)) = (-1, None) \<and>
   last_error (snd (wl_xl_create_dmatrix_dense fv_ops (Some sample_data) 2 3 (Some sample_label) None 1
          (world0\<lparr> mem := 2 \<rparr>))) = ''std::bad_alloc'' \<and>
   heap (world0\<lparr> mem := 2 \<rparr>) = [] \<and>
   map (map_option row) (heap (snd (wl_xl_create_dmatrix_dense fv_ops (Some sample_data) 2 3
          (Some sample_label) None 1 (world0\<lparr> mem := 2 \<rparr>)))) = [Some [[]]]"
  by (simp add: wl_xl_create_dmatrix_dense_def Let_def clear_error_def set_error_def world0_def
        finish_build_def dense_rows.simps dense_cols.simps AddRow_def AddNode_def set_Y_def
        set_norm_def sample_data_def sample_label_def new_DMatrix_def is_null_def bad_alloc_def
        fv_ops_def field_of_def index_t_def)

text \<open>
  C1 (the code departs from it). When training succeeded and the model file cannot be
  reopened, \<open>wl_xl_fit\<close> returns without \<open>remove(model_path)\<close>. Every other exit of
  \<open>fit\<close> and every exit of \<open>predict\<close> leaves no staging file that the call made
  (\<open>wl_xl_fit_reclaims\<close>, \<open>wl_xl_predict_reclaims\<close>). Here \<open>fopen\<close> fails for lack
  of memory: the call fails and the staging file is still there.
\<close>

theorem fit_leaves_staging_file:
  "fst (wl_xl_fit sample_engine 7 1 0 1 1 (world0\<lparr> mem := 0 \<rparr>)) = (-1, None) \<and>
   last_error (snd (wl_xl_fit sample_engine 7 1 0 1 1 (world0\<lparr> mem := 0 \<rparr>))) =
     ''wl_xl_fit: cannot read model file from MEMFS'' \<and>
   staged (snd (wl_xl_fit sample_engine 7 1 0 1 1 (world0\<lparr> mem := 0 \<rparr>))) = [''/tmp/wl_xl_model_0''] \<and>
   files (world0\<lparr> mem := 0 \<rparr>) ''/tmp/wl_xl_model_0'' = None \<and>
   files (snd (wl_xl_fit sample_engine 7 1 0 1 1 (world0\<lparr> mem := 0 \<rparr>))) ''/tmp/wl_xl_model_0'' =
     Some ''model''"
  by (simp add: wl_xl_fit_def fit_train_def fit_read_model_def next_path_def snprintf_d_def dec_int_small
        call_SetDMatrix_def call_Fit_def sys_defs Let_def clear_error_def set_error_def
        sample_engine_def world0_def)

subsection \<open>The standard output around the engine's call\<close>

text \<open>
  C8, as amended. In \<open>fit\<close> and in \<open>predict\<close> the standard output is redirected right
  before the engine's call and the redirection undone right after it, before any exit
  is taken. Provided descriptor 1 is open at the entry, the descriptor table at the
  return is the one at the entry, whatever the outcome (invalid arguments, a failure of
  the engine, of the read-back or of an allocation). Provided also that two descriptors
  are free at the entry, nothing the engine prints during the call reaches the console.
\<close>

theorem stdout_suppressed_and_restored:
  assumes "fd_open 1 (fdtab w)"
  shows "fdtab (snd (wl_xl_fit E handle dtrain dvalid out_model_buf out_model_len w)) = fdtab w \<and>
         fdtab (snd (wl_xl_predict E handle model_buf model_len dtest out_preds out_len w)) = fdtab w \<and>
         ((\<exists>a b. a \<noteq> b \<and> a < length (fdtab w) \<and> b < length (fdtab w) \<and>
                  fdtab w ! a = None \<and> fdtab w ! b = None) \<longrightarrow>
            console (snd (wl_xl_fit E handle dtrain dvalid out_model_buf out_model_len w)) = console w \<and>
            console (snd (wl_xl_predict E handle model_buf model_len dtest out_preds out_len w)) =
              console w)"
proof -
  let ?two = "\<exists>a b. a \<noteq> b \<and> a < length (fdtab w) \<and> b < length (fdtab w) \<and>
                  fdtab w ! a = None \<and> fdtab w ! b = None"
  have "(fdtab (snd (wl_xl_fit E handle dtrain dvalid out_model_buf out_model_len w)),
         console (snd (wl_xl_fit E handle dtrain dvalid out_model_buf out_model_len w))) =
          (fdtab w, console w) \<or>
        (\<exists>w1. (fdtab w1, console w1) = (fdtab w, console w) \<and>
           wl_xl_fit E handle dtrain dvalid out_model_buf out_model_len w = fit_train E handle w1)"
    by (rule wl_xl_fit_cases [where P = "\<lambda>w. (fdtab w, console w)"])
       (simp_all add: call_SetDMatrix_frame)
  then have "fdtab (snd (wl_xl_fit E handle dtrain dvalid out_model_buf out_model_len w)) = fdtab w \<and>
        (?two \<longrightarrow>
           console (snd (wl_xl_fit E handle dtrain dvalid out_model_buf out_model_len w)) = console w)"
  proof (elim disjE exE conjE)
    fix w1 :: "('a, 'b) world"
    assume e: "(fdtab w1, console w1) = (fdtab w, console w)"
      and r: "wl_xl_fit E handle dtrain dvalid out_model_buf out_model_len w = fit_train E handle w1"
    from fit_train_fdtab [of w1 E handle] fit_train_console [of w1 E handle] assms e r
    show ?thesis by simp
  qed simp
  then have f: "fdtab (snd (wl_xl_fit E handle dtrain dvalid out_model_buf out_model_len w)) = fdtab w"
    and fc: "?two \<Longrightarrow>
           console (snd (wl_xl_fit E handle dtrain dvalid out_model_buf out_model_len w)) = console w"
    by simp_all
  from wl_xl_predict_frame [OF assms, of ?two E handle model_buf model_len dtest out_preds out_len]
  have p: "fdtab (snd (wl_xl_predict E handle model_buf model_len dtest out_preds out_len w)) = fdtab w"
    and pc: "?two \<longrightarrow>
       console (snd (wl_xl_predict E handle model_buf model_len dtest out_preds out_len w)) = console w"
    by simp_all
  from f fc p pc show ?thesis by blast
qed

theorem stdout_suppressed_and_restored_witness:
  "fd_open 1 (fdtab world0) \<and>
   fdtab world0 ! 3 = None \<and> fdtab world0 ! 4 = None \<and>
   fst (wl_xl_fit sample_engine 7 1 0 1 1 world0) = (0, Some (Out_model ''model'' 5)) \<and>
   fdtab (snd (wl_xl_fit sample_engine 7 1 0 1 1 world0)) = fdtab world0 \<and>
   console (snd (wl_xl_fit sample_engine 7 1 0 1 1 world0)) = []"
proof -
  have o: "fd_open 1 (fdtab world0)" by (simp add: world0_def fd_open_def is_null_def)
  have t: "\<exists>a b. a \<noteq> b \<and> a < length (fdtab world0) \<and> b < length (fdtab world0) \<and>
                  fdtab world0 ! a = None \<and> fdtab world0 ! b = None"
    by (rule exI [of _ 3], rule exI [of _ 4]) (simp add: world0_def)
  have r: "fst (wl_xl_fit sample_engine 7 1 0 1 1 world0) = (0, Some (Out_model ''model'' 5))"
    by (simp add: wl_xl_fit_def fit_train_def fit_read_model_def next_path_def snprintf_d_def dec_int_small
        call_SetDMatrix_def call_Fit_def sys_defs Let_def clear_error_def set_error_def
        sample_engine_def world0_def)
  have c: "console world0 = []" "fdtab world0 ! 3 = None" "fdtab world0 ! 4 = None"
    by (simp_all add: world0_def)
  from stdout_suppressed_and_restored [OF o, of sample_engine 7 1 0 1 1] t o r c
  show ?thesis by simp
qed

text \<open>
  C8 as the spec words it, without these conditions, fails: \<open>suppress_stdout\<close> checks
  the result of neither \<open>dup\<close> nor \<open>open\<close>. With a single free descriptor \<open>dup\<close> takes
  it, \<open>open\<close> fails and nothing is redirected: \<open>fit\<close> succeeds and the engine's line is
  on the console. With descriptors 0 and 1 closed \<open>dup\<close> fails, \<open>open\<close> returns 0, and
  descriptor 1 is left on \<open>/dev/null\<close> after the call, since \<open>restore_stdout\<close> has
  nothing saved to restore.
\<close>

theorem stdout_unconditional_counterexample:
  "fst (wl_xl_fit sample_engine 7 1 0 1 1 world_one_free) = (0, Some (Out_model ''model'' 5)) \<and>
   console world_one_free = [] \<and>
   console (snd (wl_xl_fit sample_engine 7 1 0 1 1 world_one_free)) = [''Epoch 1''] \<and>
   fdtab world_std_closed = [None, None, Some Console, None] \<and>
   fdtab (snd (wl_xl_fit sample_engine 7 1 0 1 1 world_std_closed)) =
     [None, Some DevNull, Some Console, None]"
proof -
  have 1: "fst (wl_xl_fit sample_engine 7 1 0 1 1 world_one_free) = (0, Some (Out_model ''model'' 5))"
    by (simp add: wl_xl_fit_def fit_train_def fit_read_model_def next_path_def snprintf_d_def
          dec_int_small call_SetDMatrix_def call_Fit_def sys_defs Let_def clear_error_def
          set_error_def sample_engine_def world_one_free_def)
  have 2: "console (snd (wl_xl_fit sample_engine 7 1 0 1 1 world_one_free)) = [''Epoch 1'']"
    by (simp add: wl_xl_fit_def fit_train_def fit_read_model_def next_path_def snprintf_d_def
          dec_int_small call_SetDMatrix_def call_Fit_def sys_defs Let_def clear_error_def
          set_error_def sample_engine_def world_one_free_def)
  have 3: "fdtab (snd (wl_xl_fit sample_engine 7 1 0 1 1 world_std_closed)) =
     [None, Some DevNull, Some Console, None]"
    by (simp add: wl_xl_fit_def fit_train_def fit_read_model_def next_path_def snprintf_d_def
          dec_int_small call_SetDMatrix_def call_Fit_def sys_defs Let_def clear_error_def
          set_error_def sample_engine_def world_std_closed_def)
  have 4: "console world_one_free = []" "fdtab world_std_closed = [None, None, Some Console, None]"
    by (simp_all add: world_one_free_def world_std_closed_def)
  from 1 2 3 4 show ?thesis by simp
qed

subsection \<open>Staging identifiers\<close>

text \<open>
  C7. The staging paths come from one counter, \<open>fit_counter\<close>, shared by \<open>fit\<close> and
  \<open>predict\<close>: in any sequence of calls, the \<open>i\<close>-th path generated carries the counter
  value \<open>c + i\<close>, where \<open>c\<close> is the value at the start, after the prefix of \<open>fit\<close> or of
  \<open>predict\<close>; the counter is advanced by one for each path and never set back. So no
  two calls of the sequence use the same path. (The counter is a C \<open>int\<close>: the
  statement is about the runs in which it stays in range.)
\<close>

theorem staging_paths_never_repeat:
  assumes "staged w = []" and "- (2 ^ 31) \<le> fit_counter w"
    and "fit_counter w + int (length cs) < 2 ^ 31"
  shows "distinct (staged (run E ops cs w)) \<and>
         fit_counter (run E ops cs w) = fit_counter w + int (length (staged (run E ops cs w))) \<and>
         (\<forall>i < length (staged (run E ops cs w)).
            staged (run E ops cs w) ! i =
              snprintf_d 64 ''/tmp/wl_xl_model_'' (fit_counter w + int i) \<or>
            staged (run E ops cs w) ! i =
              snprintf_d 64 ''/tmp/wl_xl_pred_'' (fit_counter w + int i))"
proof -
  have "staging_inv (fit_counter w) w" using assms(1) by (simp add: staging_inv_def)
  from run_staging_inv [OF this, of E ops cs] assms(1)
  have inv: "staging_inv (fit_counter w) (run E ops cs w)"
    and len: "length (staged (run E ops cs w)) \<le> length cs" by simp_all
  from len assms(3) have "fit_counter w + int (length (staged (run E ops cs w))) \<le> 2 ^ 31" by simp
  from staging_inv_distinct [OF inv assms(2) this] inv show ?thesis
    by (simp add: staging_inv_def)
qed

theorem staging_paths_never_repeat_witness:
  "staged world0 = [] \<and> - (2 ^ 31) \<le> fit_counter world0 \<and>
   fit_counter world0 + int (length [Fit 7 1 0 1 1, Fit 7 1 0 1 1, Predict 7 (Some ''model'') 5 1 1 1 :: fval api_call])
     < 2 ^ 31 \<and>
   staged (run sample_engine fv_ops [Fit 7 1 0 1 1, Fit 7 1 0 1 1, Predict 7 (Some ''model'') 5 1 1 1] world0) =
     [''/tmp/wl_xl_model_0'', ''/tmp/wl_xl_model_1'', ''/tmp/wl_xl_pred_2''] \<and>
   distinct (staged (run sample_engine fv_ops
     [Fit 7 1 0 1 1, Fit 7 1 0 1 1, Predict 7 (Some ''model'') 5 1 1 1] world0))"
proof -
  let ?cs = "[Fit 7 1 0 1 1, Fit 7 1 0 1 1, Predict 7 (Some ''model'') 5 1 1 1 :: fval api_call]"
  have h: "staged world0 = []" "- (2 ^ 31) \<le> fit_counter world0"
    "fit_counter world0 + int (length ?cs) < 2 ^ 31"
    by (simp_all add: world0_def)
  have f: "staged (snd (wl_xl_fit sample_engine 7 1 0 1 1 w)) =
             staged w @ [snprintf_d 64 ''/tmp/wl_xl_model_'' (fit_counter w)]"
    "fit_counter (snd (wl_xl_fit sample_engine 7 1 0 1 1 w)) = fit_counter w + 1"
    for w :: "(unit, fval) world"
    using wl_xl_fit_staging_bound [of 7 1 1 1 sample_engine w]
    by (simp_all add: call_SetDMatrix_def sample_engine_def)
  have p: "staged (snd (wl_xl_predict sample_engine 7 (Some ''model'') 5 1 1 1 w)) =
             staged w @ [snprintf_d 64 ''/tmp/wl_xl_pred_'' (fit_counter w)]"
    for w :: "(unit, fval) world"
    using wl_xl_predict_staging_valid [of "Some ''model''" 7 5 1 1 1 sample_engine w] by simp
  define w1 where "w1 = snd (wl_xl_fit sample_engine 7 1 0 1 1 world0)"
  define w2 where "w2 = snd (wl_xl_fit sample_engine 7 1 0 1 1 w1)"
  define w3 where "w3 = snd (wl_xl_predict sample_engine 7 (Some ''model'') 5 1 1 1 w2)"
  have r: "run sample_engine fv_ops ?cs world0 = w3"
    by (simp only: run.simps do_call.simps w1_def w2_def w3_def)
  have 1: "staged w1 = [snprintf_d 64 ''/tmp/wl_xl_model_'' 0]" "fit_counter w1 = 1"
    unfolding w1_def f by (simp_all add: world0_def)
  have 2: "staged w2 = [snprintf_d 64 ''/tmp/wl_xl_model_'' 0, snprintf_d 64 ''/tmp/wl_xl_model_'' 1]"
    "fit_counter w2 = 2"
    unfolding w2_def f by (simp_all add: 1)
  have 3: "staged w3 = [snprintf_d 64 ''/tmp/wl_xl_model_'' 0, snprintf_d 64 ''/tmp/wl_xl_model_'' 1,
                        snprintf_d 64 ''/tmp/wl_xl_pred_'' 2]"
    unfolding w3_def p by (simp add: 2)
  have s: "staged (run sample_engine fv_ops ?cs world0) =
     [''/tmp/wl_xl_model_0'', ''/tmp/wl_xl_model_1'', ''/tmp/wl_xl_pred_2'']"
    unfolding r 3 by (simp add: snprintf_d_def dec_int_small)
  from staging_paths_never_repeat [OF h, of sample_engine fv_ops] h s show ?thesis by simp
qed

end
